theory Spec2Isabelle
  imports Main "HOL-Library.Finite_Map"
begin

section \<open>Python values\<close>

text \<open>
  A Python value as the charm handles it: what \<open>json.loads\<close> returns and what the
  configuration builder assembles. A \<open>dict\<close> is a finite map, so two dictionaries are
  equal when they hold the same items, whatever the order they were written in.
\<close>

datatype json =
    JNull
  | JBool bool
  | JInt int
  | JStr string
  | JList "json list"
  | JDict "(string, json) fmap"

text \<open>
  Python's \<open>==\<close> on such values: \<open>True\<close> equals \<open>1\<close> and \<open>False\<close> equals \<open>0\<close>, lists are
  compared element by element and dictionaries key by key. Two values are equal when
  they agree once every boolean is read as its integer. Numbers are the integers; the
  documents of the charm hold no other.
\<close>

primrec py_norm :: "json \<Rightarrow> json" where
  "py_norm JNull = JNull"
| "py_norm (JBool b) = JInt (if b then 1 else 0)"
| "py_norm (JInt i) = JInt i"
| "py_norm (JStr s) = JStr s"
| "py_norm (JList xs) = JList (map py_norm xs)"
| "py_norm (JDict m) = JDict (fmmap py_norm m)"

definition py_eq :: "json \<Rightarrow> json \<Rightarrow> bool" where
  "py_eq a b = (py_norm a = py_norm b)"

text \<open>
  \<open>json.dumps\<close> and \<open>json.loads\<close> belong to the standard library, not to the charm.
  They are passed to every function that calls them: \<open>json_dumps\<close> takes the
  \<open>indent\<close> argument and the value, \<open>json_loads\<close> returns \<open>None\<close> where the library
  raises \<open>JSONDecodeError\<close>.
\<close>

record codec =
  json_dumps :: "nat option \<Rightarrow> json \<Rightarrow> string"
  json_loads :: "string \<Rightarrow> json option"

text \<open>
  The exceptions the sources name. \<open>PebbleError\<close> stands for an \<open>ops.pebble.Error\<close> that is
  not a \<open>ChangeError\<close> (\<open>PathError\<close>, \<open>APIError\<close>, \<open>ConnectionError\<close>).
\<close>

datatype exn =
    FileNotFoundError
  | PebbleError string
  | ChangeError string
  | JSONDecodeError
  | ValueError string
  | ValidationError

text \<open>An integer inside an f-string: its decimal digits, with a sign when negative.\<close>

definition digit :: "nat \<Rightarrow> char" where
  "digit d = ''0123456789'' ! d"

fun str_nat :: "nat \<Rightarrow> string" where
  "str_nat n =
     (if n < 10 then [digit n]
      else str_nat (n div 10) @ [digit (n mod 10)])"

declare str_nat.simps [simp del]

definition str_int :: "int \<Rightarrow> string" where
  "str_int i = (if i < 0 then CHR ''-'' # str_nat (nat (- i)) else str_nat (nat i))"

text \<open>
  Python's \<open>int(text)\<close> on a decimal numeral with an optional minus sign, \<open>None\<close> where it
  raises \<open>ValueError\<close>. It says which number a text denotes.
\<close>

fun position :: "char \<Rightarrow> nat \<Rightarrow> string \<Rightarrow> nat option" where
  "position c i [] = None"
| "position c i (d # ds) = (if c = d then Some i else position c (Suc i) ds)"

definition digit_value :: "char \<Rightarrow> nat option" where
  "digit_value c = position c 0 ''0123456789''"

fun decimal_acc :: "string \<Rightarrow> nat \<Rightarrow> nat option" where
  "decimal_acc [] acc = Some acc"
| "decimal_acc (c # cs) acc =
     (case digit_value c of
        None \<Rightarrow> None
      | Some d \<Rightarrow> decimal_acc cs (acc * 10 + d))"

definition py_nat :: "string \<Rightarrow> nat option" where
  "py_nat text = (if text = [] then None else decimal_acc text 0)"

fun py_int :: "string \<Rightarrow> int option" where
  "py_int [] = None"
| "py_int (c # cs) =
     (if c = CHR ''-'' then map_option (\<lambda>n. - int n) (py_nat cs)
      else map_option int (py_nat (c # cs)))"

text \<open>
  A value of the charm configuration, and what \<open>if value:\<close> makes of it: \<open>None\<close>,
  \<open>False\<close>, \<open>0\<close> and the empty string are false, everything else is true.
\<close>

datatype cfg_value = CNone | CBool bool | CInt int | CStr string

fun truthy :: "cfg_value \<Rightarrow> bool" where
  "truthy CNone = False"
| "truthy (CBool b) = b"
| "truthy (CInt i) = (i \<noteq> 0)"
| "truthy (CStr s) = (s \<noteq> [])"

text \<open>\<open>d.get(key, default)\<close> on a dictionary of strings.\<close>

definition dict_get :: "(string, 'v) fmap \<Rightarrow> string \<Rightarrow> 'v \<Rightarrow> 'v" where
  "dict_get d k dflt = (case fmlookup d k of None \<Rightarrow> dflt | Some v \<Rightarrow> v)"

section \<open>config\_builder.py\<close>

definition CONSUL_DATA_DIR :: string where
  "CONSUL_DATA_DIR = ''/consul/data''"

record ports =
  dns :: int
  http :: int
  https :: int
  grpc :: int
  grpc_tls :: int
  serf_lan :: int
  serf_wan :: int
  server :: int
  sidecar_min_port :: int
  sidecar_max_port :: int
  expose_min_port :: int
  expose_max_port :: int

text \<open>
  \<open>ConsulConfigBuilder(ports, datacenter, number_of_units, retry_join_addresses,
  tls_certificates).build()\<close>. The constructor stores \<open>tls_certificates or {}\<close>.
\<close>

definition build ::
  "ports \<Rightarrow> string \<Rightarrow> int \<Rightarrow> string list \<Rightarrow> (string, string) fmap option \<Rightarrow> json" where
  "build ps datacenter number_of_units retry_join tls_certificates =
     (let tls = (case tls_certificates of None \<Rightarrow> fmempty | Some d \<Rightarrow> d) in
      JDict (fmap_of_list [
        (''bind_addr'', JStr ''0.0.0.0''),
        (''bootstrap_expect'', JInt number_of_units),
        (''client_addr'', JStr ''0.0.0.0''),
        (''connect'', JDict (fmap_of_list [(''enabled'', JBool False)])),
        (''datacenter'', JStr datacenter),
        (''data_dir'', JStr CONSUL_DATA_DIR),
        (''ports'', JDict (fmap_of_list [
           (''dns'', JInt (dns ps)),
           (''http'', JInt (http ps)),
           (''https'', JInt (https ps)),
           (''grpc'', JInt (grpc ps)),
           (''grpc_tls'', JInt (grpc_tls ps)),
           (''serf_lan'', JInt (serf_lan ps)),
           (''serf_wan'', JInt (serf_wan ps)),
           (''server'', JInt (server ps))])),
        (''retry_join'', JList (map JStr retry_join)),
        (''server'', JBool True),
        (''tls'', JDict (fmap_of_list [
           (''defaults'', JDict (fmap_of_list [
              (''verify_incoming'', JBool True),
              (''verify_outgoing'', JBool True),
              (''ca_file'', JStr (dict_get tls ''ca_certificate_path''
                                   ''/consul/config/certs/ca.pem'')),
              (''cert_file'', JStr (dict_get tls ''server_certificate_path''
                                     ''/consul/config/certs/server-cert.pem'')),
              (''key_file'', JStr (dict_get tls ''server_key_path''
                                    ''/consul/config/certs/server-key.pem''))]))])),
        (''ui_config'', JDict (fmap_of_list [(''enabled'', JBool False)]))]))"

text \<open>Reading a key of a dictionary value; \<open>None\<close> where Python raises \<open>KeyError\<close>.\<close>

definition json_item :: "json \<Rightarrow> string \<Rightarrow> json option" where
  "json_item d k = (case d of JDict m \<Rightarrow> fmlookup m k | _ \<Rightarrow> None)"

section \<open>The workload container\<close>

text \<open>
  The Pebble container the charm talks to, reduced to what the charm reads and writes:
  whether Pebble answers, the files pushed to the workload, the services of the combined
  plan, and what the next restart of a service will do: \<open>Some e\<close> when \<open>restart\<close> raises
  the exception \<open>e\<close>, which is a \<open>ChangeError\<close> when the change fails and another Pebble
  error when Pebble refuses the request or does not answer.
\<close>

record service =
  svc_override :: string
  svc_summary :: string
  svc_command :: string
  svc_startup :: string

record layer =
  layer_summary :: string
  layer_description :: string
  layer_services :: "(string, service) fmap"

record container =
  can_connect :: bool
  files :: "(string, string) fmap"
  plan_services :: "(string, service) fmap"
  restart_failure :: "exn option"

text \<open>\<open>pull\<close> of a path that does not exist raises Pebble's \<open>PathError\<close>, an \<open>Error\<close>.\<close>

definition pull :: "container \<Rightarrow> string \<Rightarrow> exn + string" where
  "pull c path =
     (case fmlookup (files c) path of
        None \<Rightarrow> Inl (PebbleError ''not-found'')
      | Some text \<Rightarrow> Inr text)"

definition push :: "container \<Rightarrow> string \<Rightarrow> string \<Rightarrow> container" where
  "push c path text = c\<lparr>files := fmupd path text (files c)\<rparr>"

text \<open>
  \<open>add_layer(label, layer, combine=True)\<close>: the services of the layer are merged into
  the plan; a service with \<open>override: replace\<close> takes the place of the one of the same
  name, the other services of the plan stay.
\<close>

definition add_layer :: "container \<Rightarrow> string \<Rightarrow> layer \<Rightarrow> container" where
  "add_layer c label l = c\<lparr>plan_services := plan_services c ++\<^sub>f layer_services l\<rparr>"

definition restart :: "container \<Rightarrow> string \<Rightarrow> exn + container" where
  "restart c name =
     (case restart_failure c of
        Some e \<Rightarrow> Inl e
      | None \<Rightarrow> Inr c)"

section \<open>Kubernetes pods\<close>

record pod_status =
  hostIP :: "string option"

record pod =
  pod_namespace :: string
  pod_labels :: "(string \<times> string) list"
  status :: "pod_status option"

text \<open>
  \<open>client.list(Pod, namespace=namespace, labels={"app.kubernetes.io/name": app})\<close>:
  the pods of the namespace that carry the label.
\<close>

definition client_list :: "pod list \<Rightarrow> string \<Rightarrow> string \<Rightarrow> pod list" where
  "client_list cluster namespace app =
     filter (\<lambda>p. pod_namespace p = namespace
                \<and> map_of (pod_labels p) ''app.kubernetes.io/name'' = Some app) cluster"

text \<open>
  A Python \<open>set\<close> of strings, kept as a list without repetition. Python does not say in
  which order a set is iterated; the list keeps the order of insertion, and the theorems
  speak of the elements only.
\<close>

definition set_add :: "string \<Rightarrow> string list \<Rightarrow> string list" where
  "set_add x xs = (if x \<in> set xs then xs else xs @ [x])"

fun hostips_loop :: "pod list \<Rightarrow> string list \<Rightarrow> string list" where
  "hostips_loop [] hostips = hostips"
| "hostips_loop (p # pods) hostips =
     (case status p of
        None \<Rightarrow> hostips_loop pods hostips
      | Some pod_status \<Rightarrow>
          (case hostIP pod_status of
             None \<Rightarrow> hostips_loop pods hostips
           | Some hostip \<Rightarrow>
               if hostip = [] then hostips_loop pods hostips
               else hostips_loop pods (set_add hostip hostips)))"

definition get_hostips_for_consul_service :: "pod list \<Rightarrow> string \<Rightarrow> string \<Rightarrow> string list" where
  "get_hostips_for_consul_service cluster app namespace =
     hostips_loop (client_list cluster namespace app) []"

section \<open>lib/charms/consul\_k8s/v0/consul\_cluster.py\<close>

text \<open>
  \<open>ConsulConfigProviderAppData\<close>. Both fields are declared with \<open>Field("...")\<close>, and the
  first positional argument of pydantic's \<open>Field\<close> is the default of the field: a key
  that is absent takes that text as its value, which pydantic does not validate. A key
  that is present is validated: \<open>datacenter\<close> must be a string; \<open>server_join_addresses\<close>
  goes through \<open>convert_str_to_list_of_str\<close> first and must then be a list of strings.
\<close>

record app_data =
  ad_datacenter :: string
  ad_server_join_addresses :: json

definition convert_str_to_list_of_str :: "codec \<Rightarrow> json \<Rightarrow> exn + json" where
  "convert_str_to_list_of_str J v =
     (case v of
        JStr s \<Rightarrow>
          (case json_loads J s of
             None \<Rightarrow> Inl (ValueError ''Field not in json format'')
           | Some decoded \<Rightarrow> Inr decoded)
      | _ \<Rightarrow> Inr v)"

fun is_JStr :: "json \<Rightarrow> bool" where
  "is_JStr (JStr s) = True"
| "is_JStr _ = False"

fun is_list_of_str :: "json \<Rightarrow> bool" where
  "is_list_of_str (JList xs) = list_all is_JStr xs"
| "is_list_of_str _ = False"

definition ConsulConfigProviderAppData :: "codec \<Rightarrow> (string, json) fmap \<Rightarrow> exn + app_data" where
  "ConsulConfigProviderAppData J kwargs =
     (case (case fmlookup kwargs ''datacenter'' of
              None \<Rightarrow> Inr ''Datacenter cluster name''
            | Some (JStr s) \<Rightarrow> Inr s
            | Some _ \<Rightarrow> Inl ValidationError) of
        Inl e \<Rightarrow> Inl e
      | Inr dc \<Rightarrow>
          (case fmlookup kwargs ''server_join_addresses'' of
             None \<Rightarrow>
               Inr \<lparr>ad_datacenter = dc,
                    ad_server_join_addresses = JStr ''Consul server join addresses''\<rparr>
           | Some v \<Rightarrow>
               (case convert_str_to_list_of_str J v of
                  Inl e \<Rightarrow> Inl ValidationError
                | Inr v' \<Rightarrow>
                    if is_list_of_str v'
                    then Inr \<lparr>ad_datacenter = dc, ad_server_join_addresses = v'\<rparr>
                    else Inl ValidationError)))"

definition model_dump :: "app_data \<Rightarrow> (string, json) fmap" where
  "model_dump d =
     fmap_of_list [(''datacenter'', JStr (ad_datacenter d)),
                   (''server_join_addresses'', ad_server_join_addresses d)]"

subsection \<open>ConsulConfigRequirer\<close>

text \<open>
  The requirer sees the application databag of the remote side of the relation, a
  dictionary of strings, or no relation at all. It records the events it emits.
\<close>

datatype requirer_event = ClusterConfigChangedEvent | ClusterServerGoneAwayEvent

record requirer =
  consul_cluster_rel :: "(string, string) fmap option"
  emitted :: "requirer_event list"

text \<open>\<open>ConsulConfigProviderAppData(**databag)\<close>: every value of a databag is a string.\<close>

definition databag_kwargs :: "(string, string) fmap \<Rightarrow> (string, json) fmap" where
  "databag_kwargs databag = fmmap JStr databag"

definition validate_databag_from_relation :: "codec \<Rightarrow> requirer \<Rightarrow> exn + bool" where
  "validate_databag_from_relation J r =
     (case consul_cluster_rel r of
        None \<Rightarrow> Inr True
      | Some databag \<Rightarrow>
          (case ConsulConfigProviderAppData J (databag_kwargs databag) of
             Inl e \<Rightarrow> (if e = ValidationError then Inr False else Inl e)
           | Inr data \<Rightarrow> Inr True))"

definition get_app_databag_from_relation :: "codec \<Rightarrow> requirer \<Rightarrow> exn + (string, json) fmap" where
  "get_app_databag_from_relation J r =
     (case consul_cluster_rel r of
        None \<Rightarrow> Inr fmempty
      | Some databag \<Rightarrow>
          (case ConsulConfigProviderAppData J (databag_kwargs databag) of
             Inl e \<Rightarrow> (if e = ValidationError then Inr fmempty else Inl e)
           | Inr data \<Rightarrow> Inr (model_dump data)))"

definition requirer_datacenter :: "codec \<Rightarrow> requirer \<Rightarrow> exn + json option" where
  "requirer_datacenter J r =
     (case get_app_databag_from_relation J r of
        Inl e \<Rightarrow> Inl e
      | Inr data \<Rightarrow> Inr (fmlookup data ''datacenter''))"

definition requirer_server_join_addresses :: "codec \<Rightarrow> requirer \<Rightarrow> exn + json option" where
  "requirer_server_join_addresses J r =
     (case get_app_databag_from_relation J r of
        Inl e \<Rightarrow> Inl e
      | Inr data \<Rightarrow> Inr (fmlookup data ''server_join_addresses''))"

definition on_relation_changed :: "codec \<Rightarrow> requirer \<Rightarrow> exn + requirer" where
  "on_relation_changed J r =
     (case validate_databag_from_relation J r of
        Inl e \<Rightarrow> Inl e
      | Inr valid \<Rightarrow>
          if valid then Inr (r\<lparr>emitted := emitted r @ [ClusterConfigChangedEvent]\<rparr>)
          else Inr r)"

definition on_relation_broken :: "requirer \<Rightarrow> exn + requirer" where
  "on_relation_broken r = Inr (r\<lparr>emitted := emitted r @ [ClusterServerGoneAwayEvent]\<rparr>)"

text \<open>
  The observers \<open>__init__\<close> registers, in its order: both \<open>relation_changed\<close> and
  \<open>relation_broken\<close> are observed with \<open>_on_relation_changed\<close>.
\<close>

datatype relation_event_kind = relation_changed | relation_broken

datatype requirer_handler = h_on_relation_changed | h_on_relation_broken

definition requirer_observers :: "(relation_event_kind \<times> requirer_handler) list" where
  "requirer_observers =
     [(relation_changed, h_on_relation_changed),
      (relation_broken, h_on_relation_changed)]"

fun run_handler :: "codec \<Rightarrow> requirer_handler \<Rightarrow> requirer \<Rightarrow> exn + requirer" where
  "run_handler J h_on_relation_changed r = on_relation_changed J r"
| "run_handler J h_on_relation_broken r = on_relation_broken r"

fun run_handlers :: "codec \<Rightarrow> requirer_handler list \<Rightarrow> requirer \<Rightarrow> exn + requirer" where
  "run_handlers J [] r = Inr r"
| "run_handlers J (h # hs) r =
     (case run_handler J h r of Inl e \<Rightarrow> Inl e | Inr r' \<Rightarrow> run_handlers J hs r')"

text \<open>
  A relation event reaches the requirer with the relation as the hook sees it (the
  remote databag, or no relation); the framework runs the handlers registered for it.
\<close>

definition requirer_dispatch ::
  "codec \<Rightarrow> relation_event_kind \<times> (string, string) fmap option \<Rightarrow> requirer \<Rightarrow> exn + requirer" where
  "requirer_dispatch J ev r =
     run_handlers J (map snd (filter (\<lambda>(k, h). k = fst ev) requirer_observers))
       (r\<lparr>consul_cluster_rel := snd ev\<rparr>)"

fun requirer_run ::
  "codec \<Rightarrow> (relation_event_kind \<times> (string, string) fmap option) list \<Rightarrow> requirer \<Rightarrow> exn + requirer" where
  "requirer_run J [] r = Inr r"
| "requirer_run J (ev # evs) r =
     (case requirer_dispatch J ev r of Inl e \<Rightarrow> Inl e | Inr r' \<Rightarrow> requirer_run J evs r')"

section \<open>The charm\<close>

text \<open>
  What \<open>src/charm.py\<close> and \<open>charm/src/charm.py\<close> share. The option
  \<open>expose-gossip-and-rpc-ports\<close> is kept as the value the configuration holds, since the
  code only asks whether it is true.
\<close>

definition CONSUL_CONFIG_PATH :: string where
  "CONSUL_CONFIG_PATH = ''/consul/config/server.json''"

record charm_config =
  cfg_datacenter :: string
  cfg_expose_gossip_and_rpc_ports :: cfg_value
  cfg_serflan_node_port :: int

datatype status =
    UnknownStatus
  | WaitingStatus string
  | BlockedStatus string
  | ActiveStatus

record relation =
  rel_id :: nat
  rel_app_data :: "(string, string) fmap"

text \<open>
  The calls the charm makes on the workload and on the relation library, in the order
  it makes them: a file pushed (path and text), a layer added, a service restarted
  (whether the restart succeeds or not), the endpoints handed to the library for one
  relation or for all.
\<close>

datatype call =
    Push string string
  | AddLayer string
  | Restart string
  | SetEndpoints "nat option"

record charm =
  app_name :: string
  model_name :: string
  config :: charm_config
  planned_units :: int
  is_leader :: bool
  unit_status :: status
  app_status :: status
  workload :: container
  relations :: "relation list"
  cluster_pods :: "pod list"
  calls :: "call list"

definition charm_name :: string where
  "charm_name = ''consul''"

definition get_consul_ports :: "charm_config \<Rightarrow> ports" where
  "get_consul_ports cfg =
     (let ps = \<lparr>dns = - 1, http = 8500, https = - 1, grpc = - 1, grpc_tls = - 1,
                serf_lan = 8301, serf_wan = - 1, server = 8300,
                sidecar_min_port = 0, sidecar_max_port = 0,
                expose_min_port = 0, expose_max_port = 0\<rparr>
      in if truthy (cfg_expose_gossip_and_rpc_ports cfg)
         then ps\<lparr>serf_lan := cfg_serflan_node_port cfg\<rparr>
         else ps)"

text \<open>\<open>self.ports\<close>, which \<open>__init__\<close> computes from the configuration at every hook.\<close>

definition charm_ports :: "charm \<Rightarrow> ports" where
  "charm_ports st = get_consul_ports (config st)"

text \<open>
  \<open>open_ports\<close>: either the three ports declared on the unit (protocol and port), or the
  \<open>KubernetesServicePatch\<close> it returns, with its service ports, name and type.
\<close>

record service_port =
  sp_port :: int
  sp_name :: string
  sp_protocol :: string
  sp_nodePort :: "int option"
  sp_targetPort :: "int option"

record service_patch =
  patch_ports :: "service_port list"
  patch_service_name :: string
  patch_service_type :: string

datatype opened = UnitPorts "(string \<times> int) list" | ServicePatch service_patch

definition open_ports :: "charm \<Rightarrow> opened" where
  "open_ports st =
     (if \<not> truthy (cfg_expose_gossip_and_rpc_ports (config st))
      then UnitPorts [(''tcp'', serf_lan (charm_ports st)),
                      (''udp'', serf_lan (charm_ports st)),
                      (''tcp'', http (charm_ports st))]
      else
        (let node_ports =
           [\<lparr>sp_port = serf_lan (charm_ports st),
             sp_name = ''juju-'' @ str_int (serf_lan (charm_ports st)) @ ''-tcp'',
             sp_protocol = ''TCP'',
             sp_nodePort = Some (serf_lan (charm_ports st)),
             sp_targetPort = None\<rparr>,
            \<lparr>sp_port = serf_lan (charm_ports st),
             sp_name = ''juju-'' @ str_int (serf_lan (charm_ports st)) @ ''-udp'',
             sp_protocol = ''UDP'',
             sp_nodePort = Some (serf_lan (charm_ports st)),
             sp_targetPort = None\<rparr>,
            \<lparr>sp_port = http (charm_ports st),
             sp_name = ''juju-'' @ str_int (http (charm_ports st)) @ ''-tcp'',
             sp_protocol = ''TCP'',
             sp_nodePort = None,
             sp_targetPort = Some (http (charm_ports st))\<rparr>]
         in ServicePatch \<lparr>patch_ports = node_ports,
                          patch_service_name = app_name st,
                          patch_service_type = ''NodePort''\<rparr>))"

definition update_status :: "status \<Rightarrow> charm \<Rightarrow> charm" where
  "update_status s st =
     (if is_leader st then st\<lparr>app_status := s\<rparr> else st)\<lparr>unit_status := s\<rparr>"

definition pebble_layer :: layer where
  "pebble_layer =
     \<lparr>layer_summary = ''consul layer'',
      layer_description = ''pebble config layer for the consul'',
      layer_services = fmap_of_list
        [(charm_name,
          \<lparr>svc_override = ''replace'',
           svc_summary = ''consul'',
           svc_command = ''consul agent -config-file '' @ CONSUL_CONFIG_PATH,
           svc_startup = ''enabled''\<rparr>)]\<rparr>"

text \<open>
  \<open>_running_consul_config\<close>. The \<open>except\<close> clause names \<open>FileNotFoundError\<close> and Pebble's
  \<open>Error\<close>, of which \<open>PathError\<close> and \<open>ChangeError\<close> are subclasses; an exception of
  another class leaves the property.
\<close>

fun caught_by_running_consul_config :: "exn \<Rightarrow> bool" where
  "caught_by_running_consul_config FileNotFoundError = True"
| "caught_by_running_consul_config (PebbleError e) = True"
| "caught_by_running_consul_config (ChangeError e) = True"
| "caught_by_running_consul_config _ = False"

definition running_consul_config :: "codec \<Rightarrow> container \<Rightarrow> exn + json" where
  "running_consul_config J c =
     (if \<not> can_connect c then Inr (JDict fmempty)
      else
        (case (case pull c CONSUL_CONFIG_PATH of
                 Inl e \<Rightarrow> Inl e
               | Inr text \<Rightarrow>
                   (case json_loads J text of
                      None \<Rightarrow> Inl JSONDecodeError
                    | Some d \<Rightarrow> Inr d)) of
           Inl e \<Rightarrow> if caught_by_running_consul_config e then Inr (JDict fmempty) else Inl e
         | Inr d \<Rightarrow> Inr d))"

definition update_pebble_layer :: "charm \<Rightarrow> bool \<times> charm" where
  "update_pebble_layer st =
     (let current_layer_services = plan_services (workload st) in
      if current_layer_services = layer_services pebble_layer then (False, st)
      else (True, st\<lparr>workload := add_layer (workload st) charm_name pebble_layer,
                      calls := calls st @ [AddLayer charm_name]\<rparr>))"

subsection \<open>ConsulConfigProvider (lib/charms/consul\_k8s/v0/consul\_cluster.py)\<close>

text \<open>
  \<open>set_cluster_config\<close> writes the two keys into the application databag of one relation
  (given by its id, the relation of the event) or, when it is given \<open>None\<close>, of every
  relation of the endpoint. It returns at once on a unit that is not the leader.
\<close>

text \<open>
  \<open>relation.data[app][key] = value\<close>: the framework stores the value under the key, and
  deletes the key when the value is the empty string.
\<close>

definition databag_set :: "string \<Rightarrow> string \<Rightarrow> (string, string) fmap \<Rightarrow> (string, string) fmap" where
  "databag_set key v databag = (if v = [] then fmdrop key databag else fmupd key v databag)"

definition write_cluster_config :: "string \<Rightarrow> string \<Rightarrow> relation \<Rightarrow> relation" where
  "write_cluster_config datacenter server_addresses rel =
     rel\<lparr>rel_app_data :=
           databag_set ''server_join_addresses'' server_addresses
             (databag_set ''datacenter'' datacenter (rel_app_data rel))\<rparr>"

definition set_cluster_config ::
  "codec \<Rightarrow> nat option \<Rightarrow> string \<Rightarrow> string list \<Rightarrow> charm \<Rightarrow> exn + charm" where
  "set_cluster_config J relation datacenter server_join_addresses st =
     (if \<not> is_leader st then Inr st
      else
        (case ConsulConfigProviderAppData J
                (fmap_of_list [(''datacenter'', JStr datacenter),
                               (''server_join_addresses'', JList (map JStr server_join_addresses))]) of
           Inl e \<Rightarrow> (if e = ValidationError then Inr st else Inl e)
         | Inr databag \<Rightarrow>
             (let datacenter' = ad_datacenter databag;
                  server_addresses = json_dumps J None (ad_server_join_addresses databag)
              in case relation of
                   None \<Rightarrow>
                     Inr (st\<lparr>relations :=
                               map (write_cluster_config datacenter' server_addresses) (relations st)\<rparr>)
                 | Some rid \<Rightarrow>
                     Inr (st\<lparr>relations :=
                               map (\<lambda>rel. if rel_id rel = rid
                                          then write_cluster_config datacenter' server_addresses rel
                                          else rel) (relations st)\<rparr>))))"

subsection \<open>src/charm.py\<close>

definition get_join_addesses :: "charm \<Rightarrow> bool \<Rightarrow> string list" where
  "get_join_addesses st internal_use =
     (if truthy (cfg_expose_gossip_and_rpc_ports (config st)) \<and> \<not> internal_use
      then
        (let ip_addresses = get_hostips_for_consul_service (cluster_pods st) (app_name st) (model_name st)
         in map (\<lambda>ip_address. ip_address @ '':'' @ str_int (serf_lan (charm_ports st))) ip_addresses)
      else [app_name st @ ''.'' @ model_name st @ ''.svc:'' @ str_int (serf_lan (charm_ports st))])"

definition set_config_on_related_apps :: "codec \<Rightarrow> nat option \<Rightarrow> charm \<Rightarrow> exn + charm" where
  "set_config_on_related_apps J event st =
     (let datacenter = cfg_datacenter (config st);
          server_addresses = get_join_addesses st False
      in set_cluster_config J event datacenter server_addresses
           (st\<lparr>calls := calls st @ [SetEndpoints event]\<rparr>))"

definition legacy_consul_config :: "charm \<Rightarrow> json" where
  "legacy_consul_config st =
     build (charm_ports st) (cfg_datacenter (config st)) (planned_units st)
       (get_join_addesses st True) None"

definition legacy_update_consul_config :: "codec \<Rightarrow> charm \<Rightarrow> exn + bool \<times> charm" where
  "legacy_update_consul_config J st =
     (let consul_config = legacy_consul_config st in
      case running_consul_config J (workload st) of
        Inl e \<Rightarrow> Inl e
      | Inr running \<Rightarrow>
          if py_eq running consul_config then Inr (False, st)
          else
            (let text = json_dumps J None consul_config in
             Inr (True, st\<lparr>workload := push (workload st) CONSUL_CONFIG_PATH text,
                          calls := calls st @ [Push CONSUL_CONFIG_PATH text]\<rparr>)))"

definition legacy_configure :: "codec \<Rightarrow> charm \<Rightarrow> exn + charm" where
  "legacy_configure J st =
     (if \<not> can_connect (workload st)
      then Inr (update_status (WaitingStatus ''Waiting for Pebble ready'') st)
      else
        (case legacy_update_consul_config J st of
           Inl e \<Rightarrow> Inl e
         | Inr (consul_config_changed, st1) \<Rightarrow>
             (case update_pebble_layer st1 of
                (pebble_layer_changed, st2) \<Rightarrow>
                  (let restart_needed = (consul_config_changed \<or> pebble_layer_changed) in
                   case (if restart_needed
                         then
                           (case restart (workload st2) charm_name of
                              Inl e \<Rightarrow> Inl e
                            | Inr c \<Rightarrow> Inr (st2\<lparr>workload := c, calls := calls st2 @ [Restart charm_name]\<rparr>))
                         else Inr st2) of
                     Inl (ChangeError e) \<Rightarrow>
                       Inr (update_status (BlockedStatus (''Failed to restart Consul: '' @ e))
                              (st2\<lparr>calls := calls st2 @ [Restart charm_name]\<rparr>))
                   | Inl e \<Rightarrow> Inl e
                   | Inr st3 \<Rightarrow>
                       (case set_config_on_related_apps J None st3 of
                          Inl e \<Rightarrow> Inl e
                        | Inr st4 \<Rightarrow> Inr (update_status ActiveStatus st4))))))"

subsection \<open>charm/src/charm.py\<close>

definition get_internal_join_addresses :: "charm \<Rightarrow> string list" where
  "get_internal_join_addresses st =
     [app_name st @ ''.'' @ model_name st @ ''.svc:'' @ str_int (serf_lan (charm_ports st))]"

definition get_external_join_addresses :: "charm \<Rightarrow> string list option" where
  "get_external_join_addresses st =
     (if truthy (cfg_expose_gossip_and_rpc_ports (config st))
      then
        (let ip_addresses = get_hostips_for_consul_service (cluster_pods st) (app_name st) (model_name st)
         in Some (map (\<lambda>ip_address. ip_address @ '':'' @ str_int (serf_lan (charm_ports st))) ip_addresses))
      else None)"

definition get_internal_http_endpoint :: "charm \<Rightarrow> string" where
  "get_internal_http_endpoint st =
     app_name st @ ''.'' @ model_name st @ ''.svc:'' @ str_int (http (charm_ports st))"

definition get_exernal_http_endpoint :: "charm \<Rightarrow> string option" where
  "get_exernal_http_endpoint st = None"

text \<open>An optional value as JSON: \<open>None\<close> is \<open>null\<close>.\<close>

definition json_option :: "('a \<Rightarrow> json) \<Rightarrow> 'a option \<Rightarrow> json" where
  "json_option f v = (case v of None \<Rightarrow> JNull | Some x \<Rightarrow> f x)"

text \<open>
  Modelled from the spec: the databag entries \<open>ConsulServiceProvider.set_cluster_endpoints\<close>
  writes. \<open>charm/src/charm.py\<close> imports that class from a version of the relation library
  that is not among the sources. The spec (section 6) has the provider write the fields
  of the endpoint set JSON-encoded; the datacenter is written as it is, as the library
  that is among the sources does.
\<close>

definition write_cluster_endpoints ::
  "codec \<Rightarrow> string \<Rightarrow> string list \<Rightarrow> string list option \<Rightarrow> string \<Rightarrow> string option
     \<Rightarrow> relation \<Rightarrow> relation" where
  "write_cluster_endpoints J datacenter internal_join_addresses external_join_addresses
       internal_http_endpoint external_http_endpoint rel =
     rel\<lparr>rel_app_data :=
           databag_set ''external_http_endpoint''
             (json_dumps J None (json_option JStr external_http_endpoint))
          (databag_set ''internal_http_endpoint''
             (json_dumps J None (JStr internal_http_endpoint))
          (databag_set ''external_join_addresses''
             (json_dumps J None (json_option (\<lambda>xs. JList (map JStr xs)) external_join_addresses))
          (databag_set ''internal_join_addresses''
             (json_dumps J None (JList (map JStr internal_join_addresses)))
          (databag_set ''datacenter'' datacenter (rel_app_data rel)))))\<rparr>"

text \<open>
  Modelled from the spec: \<open>ConsulServiceProvider.set_cluster_endpoints\<close> itself. The spec
  (section 4.4, step 5) has it publish to the relation of the request, or to every
  relation when there is none, and do nothing unless the unit is the leader.
\<close>

definition set_cluster_endpoints ::
  "codec \<Rightarrow> nat option \<Rightarrow> string \<Rightarrow> string list \<Rightarrow> string list option \<Rightarrow> string \<Rightarrow> string option
     \<Rightarrow> charm \<Rightarrow> charm" where
  "set_cluster_endpoints J relation datacenter internal_join_addresses external_join_addresses
       internal_http_endpoint external_http_endpoint st =
     (if \<not> is_leader st then st
      else
        (case relation of
           None \<Rightarrow>
             st\<lparr>relations :=
                  map (write_cluster_endpoints J datacenter internal_join_addresses
                         external_join_addresses internal_http_endpoint external_http_endpoint)
                    (relations st)\<rparr>
         | Some rid \<Rightarrow>
             st\<lparr>relations :=
                  map (\<lambda>rel. if rel_id rel = rid
                             then write_cluster_endpoints J datacenter internal_join_addresses
                                    external_join_addresses internal_http_endpoint
                                    external_http_endpoint rel
                             else rel) (relations st)\<rparr>))"

definition set_endpoints_on_related_apps :: "codec \<Rightarrow> nat option \<Rightarrow> charm \<Rightarrow> charm" where
  "set_endpoints_on_related_apps J event st =
     (let datacenter = cfg_datacenter (config st);
          internal_join_addresses = get_internal_join_addresses st;
          external_join_addresses = get_external_join_addresses st;
          internal_http_endpoint = get_internal_http_endpoint st;
          external_http_endpoint = get_exernal_http_endpoint st
      in set_cluster_endpoints J event datacenter internal_join_addresses
           external_join_addresses internal_http_endpoint external_http_endpoint
           (st\<lparr>calls := calls st @ [SetEndpoints event]\<rparr>))"

definition tls_certificates :: "(string, string) fmap" where
  "tls_certificates =
     fmap_of_list
       [(''ca_certificate_path'', ''/consul/config/certs/ca.pem''),
        (''server_certificate_path'', ''/consul/config/certs/server-cert.pem''),
        (''server_key_path'', ''/consul/config/certs/server-key.pem'')]"

definition consul_config :: "charm \<Rightarrow> json" where
  "consul_config st =
     build (charm_ports st) (cfg_datacenter (config st)) (planned_units st)
       (get_internal_join_addresses st) (Some tls_certificates)"

definition update_consul_config :: "codec \<Rightarrow> charm \<Rightarrow> exn + bool \<times> charm" where
  "update_consul_config J st =
     (let built = consul_config st in
      case running_consul_config J (workload st) of
        Inl e \<Rightarrow> Inl e
      | Inr running \<Rightarrow>
          if py_eq running built then Inr (False, st)
          else
            (let text = json_dumps J (Some 2) built in
             Inr (True, st\<lparr>workload := push (workload st) CONSUL_CONFIG_PATH text,
                          calls := calls st @ [Push CONSUL_CONFIG_PATH text]\<rparr>)))"

definition configure :: "codec \<Rightarrow> charm \<Rightarrow> exn + charm" where
  "configure J st =
     (if \<not> can_connect (workload st)
      then Inr (update_status (WaitingStatus ''Waiting for Pebble ready'') st)
      else
        (case update_consul_config J st of
           Inl e \<Rightarrow> Inl e
         | Inr (consul_config_changed, st1) \<Rightarrow>
             (case update_pebble_layer st1 of
                (pebble_layer_changed, st2) \<Rightarrow>
                  (let restart_needed = (consul_config_changed \<or> pebble_layer_changed) in
                   case (if restart_needed
                         then
                           (case restart (workload st2) charm_name of
                              Inl e \<Rightarrow> Inl e
                            | Inr c \<Rightarrow> Inr (st2\<lparr>workload := c, calls := calls st2 @ [Restart charm_name]\<rparr>))
                         else Inr st2) of
                     Inl (ChangeError e) \<Rightarrow>
                       Inr (update_status (BlockedStatus (''Failed to restart Consul: '' @ e))
                              (st2\<lparr>calls := calls st2 @ [Restart charm_name]\<rparr>))
                   | Inl e \<Rightarrow> Inl e
                   | Inr st3 \<Rightarrow>
                       Inr (update_status ActiveStatus (set_endpoints_on_related_apps J None st3))))))"

text \<open>
  The handlers of the charm: pebble-ready, config-changed and upgrade-charm run the
  cycle; a request of the relation library publishes to the relation of the event.
\<close>

definition on_config_changed :: "codec \<Rightarrow> charm \<Rightarrow> exn + charm" where
  "on_config_changed J st = configure J st"

definition on_endpoints_request :: "codec \<Rightarrow> nat \<Rightarrow> charm \<Rightarrow> charm" where
  "on_endpoints_request J rid st = set_endpoints_on_related_apps J (Some rid) st"

section \<open>charm/src/k8s\_resource\_handlers.py\<close>

datatype ServiceType = NodePort | LoadBalancer

fun ServiceType_value :: "ServiceType \<Rightarrow> string" where
  "ServiceType_value NodePort = ''NodePort''"
| "ServiceType_value LoadBalancer = ''LoadBalancer''"

record k8s_service =
  ks_name :: string
  ks_namespace :: string
  ks_labels :: "(string, string) fmap"
  ks_ports :: "service_port list"
  ks_selector :: "(string, string) fmap"
  ks_type :: string

text \<open>
  The handler with what it reads from the charm (application, model, leadership) and
  the Service objects of the cluster it can reach.
\<close>

record service_handler =
  h_app_name :: string
  h_model_name :: string
  h_is_leader :: bool
  h_service_ports :: "service_port list"
  h_service_type :: ServiceType
  h_cluster_services :: "k8s_service list"

definition service_name :: "service_handler \<Rightarrow> string" where
  "service_name h = h_app_name h @ ''-lb''"

definition service_label :: "service_handler \<Rightarrow> string" where
  "service_label h = h_app_name h @ ''-lb''"

definition construct_service :: "service_handler \<Rightarrow> k8s_service" where
  "construct_service h =
     \<lparr>ks_name = service_name h,
      ks_namespace = h_model_name h,
      ks_labels = fmap_of_list [(''app.kubernetes.io/name'', h_app_name h)],
      ks_ports = h_service_ports h,
      ks_selector = fmap_of_list [(''app.kubernetes.io/name'', h_app_name h)],
      ks_type = ServiceType_value (h_service_type h)\<rparr>"

text \<open>
  \<open>KubernetesResourceManager\<close> comes from \<open>lightkube_extensions\<close>. It owns the objects
  that carry its labels: \<open>reconcile\<close> deletes those of them that are not among the
  resources it is given and applies the resources, with its labels added; \<open>delete\<close>
  removes all of them.
\<close>

definition create_charm_default_labels :: "string \<Rightarrow> string \<Rightarrow> string \<Rightarrow> (string, string) fmap" where
  "create_charm_default_labels application model scope =
     fmap_of_list
       [(''app.kubernetes.io/instance'', application @ ''-'' @ model),
        (''kubernetes-resource-handler-scope'', scope)]"

definition manager_labels :: "service_handler \<Rightarrow> (string, string) fmap" where
  "manager_labels h = create_charm_default_labels (h_app_name h) (h_model_name h) (service_label h)"

definition owned_by :: "(string, string) fmap \<Rightarrow> k8s_service \<Rightarrow> bool" where
  "owned_by labels s = (labels \<subseteq>\<^sub>f ks_labels s)"

definition same_object :: "k8s_service \<Rightarrow> k8s_service \<Rightarrow> bool" where
  "same_object a b = (ks_name a = ks_name b \<and> ks_namespace a = ks_namespace b)"

definition klm_apply :: "(string, string) fmap \<Rightarrow> k8s_service \<Rightarrow> k8s_service list \<Rightarrow> k8s_service list" where
  "klm_apply labels r existing =
     filter (\<lambda>s. \<not> same_object s r) existing @ [r\<lparr>ks_labels := ks_labels r ++\<^sub>f labels\<rparr>]"

definition klm_reconcile ::
  "(string, string) fmap \<Rightarrow> k8s_service list \<Rightarrow> k8s_service list \<Rightarrow> k8s_service list" where
  "klm_reconcile labels resources existing =
     fold (klm_apply labels) resources
       (filter (\<lambda>s. if owned_by labels s then list_ex (same_object s) resources else True) existing)"

definition klm_delete :: "(string, string) fmap \<Rightarrow> k8s_service list \<Rightarrow> k8s_service list" where
  "klm_delete labels existing = filter (\<lambda>s. \<not> owned_by labels s) existing"

definition reconcile_service :: "service_handler \<Rightarrow> service_handler" where
  "reconcile_service h =
     (if \<not> h_is_leader h then h
      else
        (let resources_list = [construct_service h] in
         h\<lparr>h_cluster_services :=
             klm_reconcile (manager_labels h) resources_list (h_cluster_services h)\<rparr>))"

definition on_remove :: "service_handler \<Rightarrow> service_handler" where
  "on_remove h =
     (if \<not> h_is_leader h then h
      else h\<lparr>h_cluster_services := klm_delete (manager_labels h) (h_cluster_services h)\<rparr>)"

section \<open>Running the model\<close>

text \<open>Hooks of the charm one after the other; the first exception ends the run.\<close>

fun cycles :: "codec \<Rightarrow> nat \<Rightarrow> charm \<Rightarrow> exn + charm" where
  "cycles J 0 st = Inr st"
| "cycles J (Suc n) st =
     (case configure J st of Inl e \<Rightarrow> Inl e | Inr st' \<Rightarrow> cycles J n st')"

text \<open>
  A stand-in for the standard library on concrete runs: a codec that knows one document.
  It writes \<open>d\<close> as one fixed text, reads that text back as \<open>d\<close>, and rejects every other
  text, as \<open>json.loads\<close> rejects a text that is not JSON.
\<close>

definition document_text :: string where
  "document_text = ''<server.json>''"

definition dumps_one :: "json \<Rightarrow> nat option \<Rightarrow> json \<Rightarrow> string" where
  "dumps_one d indent v = (if v = d then document_text else ''<json>'')"

definition loads_one :: "json \<Rightarrow> string \<Rightarrow> json option" where
  "loads_one d text = (if text = document_text then Some d else None)"

definition codec_of :: "json \<Rightarrow> codec" where
  "codec_of d = \<lparr>json_dumps = dumps_one d, json_loads = loads_one d\<rparr>"

text \<open>
  A unit of application \<open>consul\<close> in model \<open>test-model\<close>, with a reachable workload that
  holds no file and whose plan is empty, no relation, and one pod on host 10.10.0.10.
\<close>

definition unit0 :: charm where
  "unit0 =
     \<lparr>app_name = ''consul'',
      model_name = ''test-model'',
      config = \<lparr>cfg_datacenter = ''dc1'',
                cfg_expose_gossip_and_rpc_ports = CBool False,
                cfg_serflan_node_port = 30501\<rparr>,
      planned_units = 3,
      is_leader = True,
      unit_status = UnknownStatus,
      app_status = UnknownStatus,
      workload = \<lparr>can_connect = True, files = fmempty, plan_services = fmempty,
                  restart_failure = None\<rparr>,
      relations = [\<lparr>rel_id = 7, rel_app_data = fmempty\<rparr>],
      cluster_pods =
        [\<lparr>pod_namespace = ''test-model'',
          pod_labels = [(''app.kubernetes.io/name'', ''consul'')],
          status = Some \<lparr>hostIP = Some ''10.10.0.10''\<rparr>\<rparr>],
      calls = []\<rparr>"

text \<open>The same unit when the plan already holds a service of another layer.\<close>

definition exporter :: service where
  "exporter =
     \<lparr>svc_override = ''replace'', svc_summary = ''metrics exporter'',
      svc_command = ''exporter'', svc_startup = ''enabled''\<rparr>"

definition unit_with_exporter :: charm where
  "unit_with_exporter =
     unit0\<lparr>workload := (workload unit0)\<lparr>plan_services := fmap_of_list [(''exporter'', exporter)]\<rparr>\<rparr>"

text \<open>The same unit when the file holds the text of the one document the codec knows.\<close>

definition unit_with_document :: charm where
  "unit_with_document =
     unit0\<lparr>workload := (workload unit0)\<lparr>files := fmap_of_list [(CONSUL_CONFIG_PATH, document_text)]\<rparr>\<rparr>"

text \<open>The same unit when the file holds a text that is not JSON.\<close>

definition unit_with_corrupt_file :: charm where
  "unit_with_corrupt_file =
     unit0\<lparr>workload := (workload unit0)\<lparr>files := fmap_of_list [(CONSUL_CONFIG_PATH, ''{not json'')]\<rparr>\<rparr>"

text \<open>The same unit when the next restart raises the given exception.\<close>

definition with_restart_failure :: "exn \<Rightarrow> charm \<Rightarrow> charm" where
  "with_restart_failure e st = st\<lparr>workload := (workload st)\<lparr>restart_failure := Some e\<rparr>\<rparr>"

text \<open>The same unit under another exposure mode and node port.\<close>

definition with_expose :: "cfg_value \<Rightarrow> int \<Rightarrow> charm \<Rightarrow> charm" where
  "with_expose mode port st =
     st\<lparr>config := (config st)\<lparr>cfg_expose_gossip_and_rpc_ports := mode,
                                cfg_serflan_node_port := port\<rparr>\<rparr>"

section \<open>Facts about the model\<close>

subsection \<open>Status updates and publication leave the rest of the state alone\<close>

lemma update_status_fields [simp]:
  "unit_status (update_status s st) = s"
  "relations (update_status s st) = relations st"
  "calls (update_status s st) = calls st"
  "workload (update_status s st) = workload st"
  "config (update_status s st) = config st"
  "app_name (update_status s st) = app_name st"
  "model_name (update_status s st) = model_name st"
  "planned_units (update_status s st) = planned_units st"
  "is_leader (update_status s st) = is_leader st"
  "cluster_pods (update_status s st) = cluster_pods st"
  by (simp_all add: update_status_def)

lemma app_status_update_status:
  "app_status (update_status s st) = (if is_leader st then s else app_status st)"
  by (simp add: update_status_def)

lemma set_endpoints_fields [simp]:
  "calls (set_endpoints_on_related_apps J ev st) = calls st @ [SetEndpoints ev]"
  "workload (set_endpoints_on_related_apps J ev st) = workload st"
  "unit_status (set_endpoints_on_related_apps J ev st) = unit_status st"
  "app_status (set_endpoints_on_related_apps J ev st) = app_status st"
  "is_leader (set_endpoints_on_related_apps J ev st) = is_leader st"
  "config (set_endpoints_on_related_apps J ev st) = config st"
  "app_name (set_endpoints_on_related_apps J ev st) = app_name st"
  "model_name (set_endpoints_on_related_apps J ev st) = model_name st"
  "planned_units (set_endpoints_on_related_apps J ev st) = planned_units st"
  "cluster_pods (set_endpoints_on_related_apps J ev st) = cluster_pods st"
  by (simp_all add: set_endpoints_on_related_apps_def set_cluster_endpoints_def Let_def
      split: option.splits)

text \<open>The provider builds its databag from a string and a list of strings: it is valid.\<close>

lemma provider_data_valid:
  "ConsulConfigProviderAppData J
     (fmap_of_list [(''datacenter'', JStr dc), (''server_join_addresses'', JList (map JStr addrs))])
   = Inr \<lparr>ad_datacenter = dc, ad_server_join_addresses = JList (map JStr addrs)\<rparr>"
  by (simp add: ConsulConfigProviderAppData_def convert_str_to_list_of_str_def list_all_iff)



subsection \<open>Decimal numerals\<close>

text \<open>The text of an integer reads back as that integer.\<close>

lemma digit_value_digit: "d < 10 \<Longrightarrow> digit_value (digit d) = Some d"
proof -
  assume "d < 10"
  then have "d = 0 \<or> d = 1 \<or> d = 2 \<or> d = 3 \<or> d = 4 \<or> d = 5 \<or> d = 6 \<or> d = 7 \<or> d = 8 \<or> d = 9"
    by arith
  then show ?thesis
    by (auto simp: digit_def digit_value_def)
qed

lemma decimal_acc_append:
  "decimal_acc (xs @ ys) acc =
     (case decimal_acc xs acc of None \<Rightarrow> None | Some a \<Rightarrow> decimal_acc ys a)"
  by (induction xs arbitrary: acc) (auto split: option.splits)

lemma decimal_acc_str_nat: "decimal_acc (str_nat n) 0 = Some n"
proof (induction n rule: str_nat.induct)
  case (1 n)
  show ?case
  proof (cases "n < 10")
    case True
    then show ?thesis
      by (simp add: str_nat.simps[of n] digit_value_digit)
  next
    case False
    then have "decimal_acc (str_nat (n div 10)) 0 = Some (n div 10)"
      using "1.IH" by simp
    then show ?thesis
      using False
      by (simp add: str_nat.simps[of n] decimal_acc_append digit_value_digit)
  qed
qed

lemma str_nat_not_empty: "str_nat n \<noteq> []"
  by (simp add: str_nat.simps[of n])

lemma py_nat_str_nat: "py_nat (str_nat n) = Some n"
  by (simp add: py_nat_def str_nat_not_empty decimal_acc_str_nat)

lemma str_nat_no_sign: "str_nat n = c # cs \<Longrightarrow> c \<noteq> CHR ''-''"
proof
  assume a: "str_nat n = c # cs" and "c = CHR ''-''"
  then have "decimal_acc (str_nat n) 0 = None"
    by (simp add: digit_value_def)
  then show False
    by (simp add: decimal_acc_str_nat)
qed

lemma py_int_str_int: "py_int (str_int i) = Some i"
proof (cases "i < 0")
  case True
  then show ?thesis
    by (simp add: str_int_def py_nat_str_nat)
next
  case False
  obtain c cs where s: "str_nat (nat i) = c # cs"
    using str_nat_not_empty[of "nat i"] by (cases "str_nat (nat i)") auto
  have "py_nat (c # cs) = Some (nat i)"
    using py_nat_str_nat[of "nat i"] s by simp
  then show ?thesis
    using False s str_nat_no_sign[OF s] by (simp add: str_int_def)
qed

lemma str_int_8301: "str_int 8301 = ''8301''"
  by (simp add: str_int_def str_nat.simps digit_def)

subsection \<open>The built document\<close>

lemma retry_join_build:
  "json_item (build ps dc n addrs tls) ''retry_join'' = Some (JList (map JStr addrs))"
  by (simp add: build_def json_item_def Let_def)

lemma py_eq_refl: "py_eq d d"
  by (simp add: py_eq_def)

lemma build_not_py_empty: "\<not> py_eq (JDict fmempty) (build ps dc n addrs tls)"
proof
  assume "py_eq (JDict fmempty) (build ps dc n addrs tls)"
  then have "py_norm (build ps dc n addrs tls) = JDict fmempty"
    by (simp add: py_eq_def)
  then have "json_item (py_norm (build ps dc n addrs tls)) ''bind_addr''
             = json_item (JDict fmempty) ''bind_addr''"
    by (rule arg_cong)
  then show False
    by (simp add: build_def json_item_def Let_def)
qed

lemma consul_config_not_empty: "\<not> py_eq (JDict fmempty) (consul_config st)"
  using build_not_py_empty by (simp add: consul_config_def)


lemma consul_config_cong:
  "config a = config b \<Longrightarrow> app_name a = app_name b \<Longrightarrow> model_name a = model_name b
   \<Longrightarrow> planned_units a = planned_units b \<Longrightarrow> consul_config a = consul_config b"
  by (simp add: consul_config_def charm_ports_def get_internal_join_addresses_def)

subsection \<open>Reading the persisted document\<close>

lemma running_missing:
  assumes "fmlookup (files c) CONSUL_CONFIG_PATH = None"
  shows "running_consul_config J c = Inr (JDict fmempty)"
  using assms by (simp add: running_consul_config_def pull_def)

lemma running_depends_on_files:
  "can_connect c = can_connect c' \<Longrightarrow> files c = files c' \<Longrightarrow>
   running_consul_config J c = running_consul_config J c'"
  by (simp add: running_consul_config_def pull_def)

subsection \<open>The host addresses\<close>

lemma set_add_set: "set (set_add x xs) = insert x (set xs)"
  by (auto simp: set_add_def)

lemma set_add_distinct: "distinct xs \<Longrightarrow> distinct (set_add x xs)"
  by (simp add: set_add_def)

lemma hostips_loop_distinct: "distinct acc \<Longrightarrow> distinct (hostips_loop pods acc)"
  by (induction pods acc rule: hostips_loop.induct)
     (auto simp: set_add_distinct split: option.splits)

lemma hostips_loop_set:
  "set (hostips_loop pods acc) =
     set acc \<union> {ip. ip \<noteq> [] \<and> (\<exists>p \<in> set pods. \<exists>s. status p = Some s \<and> hostIP s = Some ip)}"
  by (induction pods acc rule: hostips_loop.induct)
     (auto simp: set_add_set split: option.splits)

lemma hostips_set:
  "set (get_hostips_for_consul_service pods app namespace) =
     {ip. ip \<noteq> [] \<and>
          (\<exists>p \<in> set pods.
             pod_namespace p = namespace
           \<and> map_of (pod_labels p) ''app.kubernetes.io/name'' = Some app
           \<and> (\<exists>s. status p = Some s \<and> hostIP s = Some ip))}"
  by (auto simp: get_hostips_for_consul_service_def hostips_loop_set client_list_def)

lemma hostips_distinct: "distinct (get_hostips_for_consul_service pods app namespace)"
  by (simp add: get_hostips_for_consul_service_def hostips_loop_distinct)

lemma map_suffix_distinct: "distinct xs \<Longrightarrow> distinct (map (\<lambda>x. x @ sfx) xs)"
  by (simp add: distinct_map inj_on_def)

lemma str_int_30501: "str_int 30501 = ''30501''"
  by (simp add: str_int_def str_nat.simps digit_def)

section \<open>The reconcile cycle\<close>

text \<open>What reading the persisted document returns when the file is there and is JSON.\<close>

lemma running_of_file:
  assumes "can_connect c"
      and "fmlookup (files c) CONSUL_CONFIG_PATH = Some text"
      and "json_loads J text = Some d"
  shows "running_consul_config J c = Inr d"
  using assms by (simp add: running_consul_config_def pull_def)

text \<open>
  What one cycle does when the workload is reachable and reading the persisted document
  returns \<open>running\<close>. Either something changed and the restart raises an exception that
  is not a \<open>ChangeError\<close>: the cycle ends with it. Or the cycle returns: the restart is
  among its calls exactly when something changed, and a \<open>ChangeError\<close> leaves the unit
  Blocked with nothing published. First for \<open>charm/src/charm.py\<close>, then for
  \<open>src/charm.py\<close>.
\<close>

lemma configure_restart_cases:
  assumes reachable: "can_connect (workload st)"
      and running: "running_consul_config J (workload st) = Inr running"
  shows "(\<forall>e. (\<not> py_eq running (consul_config st)
               \<or> plan_services (workload st) \<noteq> layer_services pebble_layer)
            \<and> restart_failure (workload st) = Some e \<and> (\<forall>t. e \<noteq> ChangeError t) \<longrightarrow>
            configure J st = Inl e)
       \<and> ((py_eq running (consul_config st)
              \<and> plan_services (workload st) = layer_services pebble_layer)
           \<or> restart_failure (workload st) = None
           \<or> (\<exists>t. restart_failure (workload st) = Some (ChangeError t)) \<longrightarrow>
           (\<exists>st' new.
              configure J st = Inr st' \<and> calls st' = calls st @ new
            \<and> (Restart charm_name \<in> set new \<longleftrightarrow>
                 \<not> py_eq running (consul_config st)
                 \<or> plan_services (workload st) \<noteq> layer_services pebble_layer)
            \<and> (\<forall>t. Restart charm_name \<in> set new
                      \<and> restart_failure (workload st) = Some (ChangeError t) \<longrightarrow>
                   unit_status st' = BlockedStatus (''Failed to restart Consul: '' @ t)
                 \<and> relations st' = relations st
                 \<and> (\<forall>ev. SetEndpoints ev \<notin> set new))))"
proof (cases "restart_failure (workload st)")
  case None
  show ?thesis
    unfolding configure_def
    using reachable running None
    by (cases "py_eq running (consul_config st)";
        cases "plan_services (workload st) = layer_services pebble_layer")
       (simp_all add: update_consul_config_def update_pebble_layer_def Let_def
          restart_def push_def add_layer_def)
next
  case (Some e)
  show ?thesis
    unfolding configure_def
    using reachable running Some
    by (cases e;
        cases "py_eq running (consul_config st)";
        cases "plan_services (workload st) = layer_services pebble_layer")
       (simp_all add: update_consul_config_def update_pebble_layer_def Let_def
          restart_def push_def add_layer_def)
qed

lemma legacy_configure_restart_cases:
  assumes reachable: "can_connect (workload st)"
      and running: "running_consul_config J (workload st) = Inr running"
  shows "(\<forall>e. (\<not> py_eq running (legacy_consul_config st)
               \<or> plan_services (workload st) \<noteq> layer_services pebble_layer)
            \<and> restart_failure (workload st) = Some e \<and> (\<forall>t. e \<noteq> ChangeError t) \<longrightarrow>
            legacy_configure J st = Inl e)
       \<and> ((py_eq running (legacy_consul_config st)
              \<and> plan_services (workload st) = layer_services pebble_layer)
           \<or> restart_failure (workload st) = None
           \<or> (\<exists>t. restart_failure (workload st) = Some (ChangeError t)) \<longrightarrow>
           (\<exists>st' new.
              legacy_configure J st = Inr st' \<and> calls st' = calls st @ new
            \<and> (Restart charm_name \<in> set new \<longleftrightarrow>
                 \<not> py_eq running (legacy_consul_config st)
                 \<or> plan_services (workload st) \<noteq> layer_services pebble_layer)
            \<and> (\<forall>t. Restart charm_name \<in> set new
                      \<and> restart_failure (workload st) = Some (ChangeError t) \<longrightarrow>
                   unit_status st' = BlockedStatus (''Failed to restart Consul: '' @ t)
                 \<and> relations st' = relations st
                 \<and> (\<forall>ev. SetEndpoints ev \<notin> set new))))"
proof (cases "restart_failure (workload st)")
  case None
  show ?thesis
    unfolding legacy_configure_def set_config_on_related_apps_def set_cluster_config_def
      provider_data_valid
    using reachable running None
    by (cases "py_eq running (legacy_consul_config st)";
        cases "plan_services (workload st) = layer_services pebble_layer")
       (simp_all add: legacy_update_consul_config_def update_pebble_layer_def Let_def
          restart_def push_def add_layer_def)
next
  case (Some e)
  show ?thesis
    unfolding legacy_configure_def set_config_on_related_apps_def set_cluster_config_def
      provider_data_valid
    using reachable running Some
    by (cases e;
        cases "py_eq running (legacy_consul_config st)";
        cases "plan_services (workload st) = layer_services pebble_layer")
       (simp_all add: legacy_update_consul_config_def update_pebble_layer_def Let_def
          restart_def push_def add_layer_def)
qed

lemma configure_raises:
  assumes "can_connect (workload st)"
      and "running_consul_config J (workload st) = Inl e"
  shows "configure J st = Inl e" and "legacy_configure J st = Inl e"
  using assms
  by (simp_all add: configure_def update_consul_config_def legacy_configure_def
      legacy_update_consul_config_def Let_def)

text \<open>
  C1, as stated, fails in two ways. On a reachable unit whose file is not JSON and whose
  plan differs from the layer, reading the persisted document raises
  \<open>JSONDecodeError\<close>: the cycle ends there, with no restart and no status. And when the
  restart raises a Pebble error that is not a \<open>ChangeError\<close> (here a refused
  connection), \<open>except ChangeError\<close> does not catch it: the cycle ends with that error
  and the unit is not set Blocked. Both charms behave so.
\<close>

theorem cycle_raises_without_restart_or_blocked_status:
  "can_connect (workload unit_with_corrupt_file)
   \<and> plan_services (workload unit_with_corrupt_file) \<noteq> layer_services pebble_layer
   \<and> configure (codec_of JNull) unit_with_corrupt_file = Inl JSONDecodeError
   \<and> legacy_configure (codec_of JNull) unit_with_corrupt_file = Inl JSONDecodeError
   \<and> can_connect (workload (with_restart_failure (PebbleError ''connection refused'') unit0))
   \<and> configure (codec_of JNull) (with_restart_failure (PebbleError ''connection refused'') unit0)
       = Inl (PebbleError ''connection refused'')
   \<and> legacy_configure (codec_of JNull) (with_restart_failure (PebbleError ''connection refused'') unit0)
       = Inl (PebbleError ''connection refused'')"
proof -
  have r: "running_consul_config (codec_of JNull) (workload unit_with_corrupt_file) = Inl JSONDecodeError"
    by (simp add: running_consul_config_def pull_def unit_with_corrupt_file_def unit0_def
        codec_of_def loads_one_def document_text_def CONSUL_CONFIG_PATH_def)
  have c: "can_connect (workload unit_with_corrupt_file)"
    by (simp add: unit_with_corrupt_file_def unit0_def)
  have p: "plan_services (workload unit_with_corrupt_file) \<noteq> layer_services pebble_layer"
    by (simp add: unit_with_corrupt_file_def unit0_def pebble_layer_def)
  let ?st = "with_restart_failure (PebbleError ''connection refused'') unit0"
  have w: "can_connect (workload ?st)"
    "fmlookup (files (workload ?st)) CONSUL_CONFIG_PATH = None"
    "restart_failure (workload ?st) = Some (PebbleError ''connection refused'')"
    "plan_services (workload ?st) \<noteq> layer_services pebble_layer"
    by (simp_all add: with_restart_failure_def unit0_def pebble_layer_def)
  have other: "\<forall>t. PebbleError ''connection refused'' \<noteq> ChangeError t"
    by simp
  have tls: "configure (codec_of JNull) ?st = Inl (PebbleError ''connection refused'')"
    using configure_restart_cases[OF w(1) running_missing[OF w(2)], of "codec_of JNull"]
      w(3) w(4) other
    by blast
  have legacy: "legacy_configure (codec_of JNull) ?st = Inl (PebbleError ''connection refused'')"
    using legacy_configure_restart_cases[OF w(1) running_missing[OF w(2)], of "codec_of JNull"]
      w(3) w(4) other
    by blast
  show ?thesis
    using c p configure_raises[OF c r] w(1) tls legacy by simp
qed

text \<open>
  C1, amended. In a cycle with a reachable workload whose configuration file is missing
  (the persisted document is then the empty one) or holds JSON text (the persisted
  document is what \<open>json.loads\<close> makes of it), and for both charms: if the built
  document differs from the persisted one or the services of the layer differ from
  those of the plan, and the restart raises an exception that is not a \<open>ChangeError\<close>,
  the cycle ends with that exception. Otherwise the cycle returns, and the restart of
  the consul service is among its calls exactly when the built document differs from
  the persisted one or the services of the layer differ from those of the plan. When
  the restart is attempted and raises \<open>ChangeError\<close>, the unit is Blocked with the
  message \<open>Failed to restart Consul: \<close> followed by the text of the error, the relation
  data is what it was, and the endpoints were handed to no relation in that cycle.
\<close>

theorem restart_iff_persisted_document_or_layer_differs:
  assumes reachable: "can_connect (workload st)"
      and persisted:
        "(fmlookup (files (workload st)) CONSUL_CONFIG_PATH = None \<and> running = JDict fmempty)
         \<or> (\<exists>text. fmlookup (files (workload st)) CONSUL_CONFIG_PATH = Some text
                  \<and> json_loads J text = Some running)"
  shows "((\<forall>e. (\<not> py_eq running (consul_config st)
               \<or> plan_services (workload st) \<noteq> layer_services pebble_layer)
            \<and> restart_failure (workload st) = Some e \<and> (\<forall>t. e \<noteq> ChangeError t) \<longrightarrow>
            configure J st = Inl e)
       \<and> ((py_eq running (consul_config st)
              \<and> plan_services (workload st) = layer_services pebble_layer)
           \<or> restart_failure (workload st) = None
           \<or> (\<exists>t. restart_failure (workload st) = Some (ChangeError t)) \<longrightarrow>
           (\<exists>st' new.
              configure J st = Inr st' \<and> calls st' = calls st @ new
            \<and> (Restart charm_name \<in> set new \<longleftrightarrow>
                 \<not> py_eq running (consul_config st)
                 \<or> plan_services (workload st) \<noteq> layer_services pebble_layer)
            \<and> (\<forall>t. Restart charm_name \<in> set new
                      \<and> restart_failure (workload st) = Some (ChangeError t) \<longrightarrow>
                   unit_status st' = BlockedStatus (''Failed to restart Consul: '' @ t)
                 \<and> relations st' = relations st
                 \<and> (\<forall>ev. SetEndpoints ev \<notin> set new)))))
       \<and> ((\<forall>e. (\<not> py_eq running (legacy_consul_config st)
               \<or> plan_services (workload st) \<noteq> layer_services pebble_layer)
            \<and> restart_failure (workload st) = Some e \<and> (\<forall>t. e \<noteq> ChangeError t) \<longrightarrow>
            legacy_configure J st = Inl e)
       \<and> ((py_eq running (legacy_consul_config st)
              \<and> plan_services (workload st) = layer_services pebble_layer)
           \<or> restart_failure (workload st) = None
           \<or> (\<exists>t. restart_failure (workload st) = Some (ChangeError t)) \<longrightarrow>
           (\<exists>st' new.
              legacy_configure J st = Inr st' \<and> calls st' = calls st @ new
            \<and> (Restart charm_name \<in> set new \<longleftrightarrow>
                 \<not> py_eq running (legacy_consul_config st)
                 \<or> plan_services (workload st) \<noteq> layer_services pebble_layer)
            \<and> (\<forall>t. Restart charm_name \<in> set new
                      \<and> restart_failure (workload st) = Some (ChangeError t) \<longrightarrow>
                   unit_status st' = BlockedStatus (''Failed to restart Consul: '' @ t)
                 \<and> relations st' = relations st
                 \<and> (\<forall>ev. SetEndpoints ev \<notin> set new)))))"
proof -
  have running: "running_consul_config J (workload st) = Inr running"
    using persisted reachable by (auto simp: running_missing running_of_file)
  show ?thesis
    using configure_restart_cases[OF reachable running]
      legacy_configure_restart_cases[OF reachable running]
    by (rule conjI)
qed

text \<open>
  A unit whose file holds the document the charm builds, whose plan is empty, and whose
  restart fails with \<open>exit status 1\<close>: the document is not written again, the layer is
  added, the restart is attempted, the unit is Blocked and nothing was published.
\<close>

theorem restart_iff_persisted_document_or_layer_differs_witness:
  "can_connect (workload (with_restart_failure (ChangeError ''exit status 1'') unit_with_document))
   \<and> fmlookup (files (workload (with_restart_failure (ChangeError ''exit status 1'') unit_with_document)))
        CONSUL_CONFIG_PATH = Some document_text
   \<and> json_loads (codec_of (consul_config unit0)) document_text = Some (consul_config unit0)
   \<and> (\<exists>st'.
         configure (codec_of (consul_config unit0))
           (with_restart_failure (ChangeError ''exit status 1'') unit_with_document) = Inr st'
       \<and> Restart charm_name \<in> set (calls st')
       \<and> unit_status st' = BlockedStatus ''Failed to restart Consul: exit status 1''
       \<and> relations st' = [\<lparr>rel_id = 7, rel_app_data = fmempty\<rparr>]
       \<and> SetEndpoints None \<notin> set (calls st'))"
proof -
  let ?J = "codec_of (consul_config unit0)"
  let ?st = "with_restart_failure (ChangeError ''exit status 1'') unit_with_document"
  have h1: "can_connect (workload ?st)"
    by (simp add: with_restart_failure_def unit_with_document_def unit0_def)
  have stored: "fmlookup (files (workload ?st)) CONSUL_CONFIG_PATH = Some document_text"
    by (simp add: with_restart_failure_def unit_with_document_def unit0_def)
  have loads: "json_loads ?J document_text = Some (consul_config unit0)"
    by (simp add: codec_of_def loads_one_def)
  have h2: "(fmlookup (files (workload ?st)) CONSUL_CONFIG_PATH = None
              \<and> consul_config unit0 = JDict fmempty)
         \<or> (\<exists>text. fmlookup (files (workload ?st)) CONSUL_CONFIG_PATH = Some text
                  \<and> json_loads ?J text = Some (consul_config unit0))"
    using stored loads by blast
  have differs: "plan_services (workload ?st) \<noteq> layer_services pebble_layer"
    by (simp add: with_restart_failure_def unit_with_document_def unit0_def pebble_layer_def)
  have fails: "restart_failure (workload ?st) = Some (ChangeError ''exit status 1'')"
    by (simp add: with_restart_failure_def)
  have start: "calls ?st = []" "relations ?st = [\<lparr>rel_id = 7, rel_app_data = fmempty\<rparr>]"
    by (simp_all add: with_restart_failure_def unit_with_document_def unit0_def)
  from restart_iff_persisted_document_or_layer_differs[OF h1 h2] fails
  obtain st' new where
    "configure ?J ?st = Inr st'" "calls st' = calls ?st @ new"
    "Restart charm_name \<in> set new \<longleftrightarrow>
       \<not> py_eq (consul_config unit0) (consul_config ?st)
       \<or> plan_services (workload ?st) \<noteq> layer_services pebble_layer"
    "\<forall>t. Restart charm_name \<in> set new
           \<and> restart_failure (workload ?st) = Some (ChangeError t) \<longrightarrow>
                unit_status st' = BlockedStatus (''Failed to restart Consul: '' @ t)
              \<and> relations st' = relations ?st
              \<and> (\<forall>ev. SetEndpoints ev \<notin> set new)"
    by blast
  with differs fails start have
    "configure ?J ?st = Inr st'
       \<and> Restart charm_name \<in> set (calls st')
       \<and> unit_status st' = BlockedStatus ''Failed to restart Consul: exit status 1''
       \<and> relations st' = [\<lparr>rel_id = 7, rel_app_data = fmempty\<rparr>]
       \<and> SetEndpoints None \<notin> set (calls st')"
    by simp
  with h1 stored loads show ?thesis by blast
qed

section \<open>A second cycle\<close>

text \<open>The value of a cycle in the three cases the proofs below need.\<close>

lemma configure_unchanged:
  assumes "can_connect (workload st)"
      and "running_consul_config J (workload st) = Inr running"
      and "py_eq running (consul_config st)"
      and "plan_services (workload st) = layer_services pebble_layer"
  shows "configure J st = Inr (update_status ActiveStatus (set_endpoints_on_related_apps J None st))"
  using assms by (simp add: configure_def update_consul_config_def update_pebble_layer_def Let_def)

lemma configure_all_changed:
  assumes "can_connect (workload st)"
      and "running_consul_config J (workload st) = Inr running"
      and "\<not> py_eq running (consul_config st)"
      and "plan_services (workload st) \<noteq> layer_services pebble_layer"
      and "restart_failure (workload st) = None"
  shows "configure J st =
           Inr (update_status ActiveStatus
                  (set_endpoints_on_related_apps J None
                     (st\<lparr>workload :=
                           add_layer (push (workload st) CONSUL_CONFIG_PATH
                                        (json_dumps J (Some 2) (consul_config st)))
                             charm_name pebble_layer,
                         calls := calls st @
                           [Push CONSUL_CONFIG_PATH (json_dumps J (Some 2) (consul_config st)),
                            AddLayer charm_name, Restart charm_name]\<rparr>)))"
  using assms
  by (simp add: configure_def update_consul_config_def update_pebble_layer_def Let_def
      restart_def push_def add_layer_def)

lemma configure_layer_changed:
  assumes "can_connect (workload st)"
      and "running_consul_config J (workload st) = Inr running"
      and "py_eq running (consul_config st)"
      and "plan_services (workload st) \<noteq> layer_services pebble_layer"
      and "restart_failure (workload st) = None"
  shows "configure J st =
           Inr (update_status ActiveStatus
                  (set_endpoints_on_related_apps J None
                     (st\<lparr>workload := add_layer (workload st) charm_name pebble_layer,
                         calls := calls st @ [AddLayer charm_name, Restart charm_name]\<rparr>)))"
  using assms
  by (simp add: configure_def update_consul_config_def update_pebble_layer_def Let_def
      restart_def add_layer_def)

text \<open>Merging a layer into a plan that holds no other service gives the layer.\<close>

lemma merged_plan_is_layer:
  assumes "fmdom p |\<subseteq>| fmdom l"
  shows "p ++\<^sub>f l = l"
proof (rule fmap_ext)
  fix k
  show "fmlookup (p ++\<^sub>f l) k = fmlookup l k"
  proof (cases "k |\<in>| fmdom l")
    case True
    then show ?thesis by simp
  next
    case False
    with assms have "k |\<notin>| fmdom p" by auto
    with False show ?thesis by (simp add: fmdom_notD)
  qed
qed

lemma first_cycle:
  assumes "configure J st = Inr st1" and "unit_status st1 = ActiveStatus"
  shows "can_connect (workload st)"
    and "config st1 = config st \<and> app_name st1 = app_name st \<and> model_name st1 = model_name st
         \<and> planned_units st1 = planned_units st \<and> is_leader st1 = is_leader st"
    and "((\<exists>running. running_consul_config J (workload st) = Inr running
                        \<and> py_eq running (consul_config st))
            \<and> files (workload st1) = files (workload st))
         \<or> files (workload st1) = fmupd CONSUL_CONFIG_PATH (json_dumps J (Some 2) (consul_config st)) (files (workload st))"
    and "(plan_services (workload st) = layer_services pebble_layer
            \<and> plan_services (workload st1) = plan_services (workload st))
         \<or> plan_services (workload st1) = plan_services (workload st) ++\<^sub>f layer_services pebble_layer"
    and "can_connect (workload st1)"
    and "app_status st1 = (if is_leader st then ActiveStatus else app_status st)"
proof -
  show c: "can_connect (workload st)"
    using assms by (auto simp: configure_def split: if_splits)
  obtain running where r: "running_consul_config J (workload st) = Inr running"
    using assms c
    by (cases "running_consul_config J (workload st)")
       (auto simp: configure_def update_consul_config_def Let_def)
  note defs = configure_def update_consul_config_def update_pebble_layer_def Let_def
          restart_def push_def add_layer_def app_status_update_status
  have all: "(config st1 = config st \<and> app_name st1 = app_name st \<and> model_name st1 = model_name st
         \<and> planned_units st1 = planned_units st \<and> is_leader st1 = is_leader st)
    \<and> (((\<exists>running. running_consul_config J (workload st) = Inr running
                        \<and> py_eq running (consul_config st))
            \<and> files (workload st1) = files (workload st))
         \<or> files (workload st1) = fmupd CONSUL_CONFIG_PATH (json_dumps J (Some 2) (consul_config st)) (files (workload st)))
    \<and> ((plan_services (workload st) = layer_services pebble_layer
            \<and> plan_services (workload st1) = plan_services (workload st))
         \<or> plan_services (workload st1) = plan_services (workload st) ++\<^sub>f layer_services pebble_layer)
    \<and> can_connect (workload st1)
    \<and> app_status st1 = (if is_leader st then ActiveStatus else app_status st)"
  proof (cases "restart_failure (workload st)")
    case None
    then show ?thesis
      using assms c r
      by (cases "py_eq running (consul_config st)";
          cases "plan_services (workload st) = layer_services pebble_layer")
         (auto simp: defs)
  next
    case (Some e)
    then show ?thesis
      using assms c r
      by (cases e;
          cases "py_eq running (consul_config st)";
          cases "plan_services (workload st) = layer_services pebble_layer")
         (auto simp: defs)
  qed
  then show "config st1 = config st \<and> app_name st1 = app_name st \<and> model_name st1 = model_name st
         \<and> planned_units st1 = planned_units st \<and> is_leader st1 = is_leader st"
    and "((\<exists>running. running_consul_config J (workload st) = Inr running
                        \<and> py_eq running (consul_config st))
            \<and> files (workload st1) = files (workload st))
         \<or> files (workload st1) = fmupd CONSUL_CONFIG_PATH (json_dumps J (Some 2) (consul_config st)) (files (workload st))"
    and "(plan_services (workload st) = layer_services pebble_layer
            \<and> plan_services (workload st1) = plan_services (workload st))
         \<or> plan_services (workload st1) = plan_services (workload st) ++\<^sub>f layer_services pebble_layer"
    and "can_connect (workload st1)"
    and "app_status st1 = (if is_leader st then ActiveStatus else app_status st)"
    by blast+
qed

lemma foreign_service_differs:
  assumes "fmlookup p k = Some s" and "k \<noteq> charm_name"
  shows "p \<noteq> layer_services pebble_layer"
    and "p ++\<^sub>f layer_services pebble_layer \<noteq> layer_services pebble_layer"
proof -
  have none: "fmlookup (layer_services pebble_layer) k = None"
    using assms(2) by (simp add: pebble_layer_def)
  show "p \<noteq> layer_services pebble_layer"
    using assms(1) none by auto
  have "fmlookup (p ++\<^sub>f layer_services pebble_layer) k = Some s"
    using assms(1) none by (simp add: fmdom_notI)
  then show "p ++\<^sub>f layer_services pebble_layer \<noteq> layer_services pebble_layer"
    using none by (metis option.distinct(1))
qed

lemma loads_document:
  "json_loads (codec_of d) (json_dumps (codec_of d) indent d) = Some d"
  by (simp add: codec_of_def dumps_one_def loads_one_def)

text \<open>
  C2, as stated, fails. \<open>add_layer\<close> is called with \<open>combine=True\<close>, so the service of
  another layer stays in the plan, and \<open>_update_pebble_layer\<close> compares all the services
  of the plan with the one service of the charm's layer: they never agree. On a unit
  whose plan holds a service \<open>exporter\<close>, the first cycle ends Active, and the second
  cycle, run on the state the first one left, adds the layer and restarts consul again.
\<close>

theorem second_cycle_restarts_again:
  "map_sum id unit_status (cycles (codec_of (consul_config unit_with_exporter)) 1 unit_with_exporter)
     = Inr ActiveStatus
   \<and> map_sum id calls (cycles (codec_of (consul_config unit_with_exporter)) 2 unit_with_exporter)
     = Inr [Push CONSUL_CONFIG_PATH document_text, AddLayer charm_name, Restart charm_name,
            SetEndpoints None,
            AddLayer charm_name, Restart charm_name, SetEndpoints None]"
proof -
  let ?J = "codec_of (consul_config unit_with_exporter)"
  let ?text = "json_dumps ?J (Some 2) (consul_config unit_with_exporter)"
  let ?w1 = "add_layer (push (workload unit_with_exporter) CONSUL_CONFIG_PATH ?text) charm_name pebble_layer"
  let ?st1 = "update_status ActiveStatus
                (set_endpoints_on_related_apps ?J None
                   (unit_with_exporter\<lparr>workload := ?w1,
                       calls := calls unit_with_exporter @
                         [Push CONSUL_CONFIG_PATH ?text, AddLayer charm_name, Restart charm_name]\<rparr>))"
  have doc: "?text = document_text"
    by (simp add: codec_of_def dumps_one_def)
  have w0: "can_connect (workload unit_with_exporter)"
    "fmlookup (files (workload unit_with_exporter)) CONSUL_CONFIG_PATH = None"
    "restart_failure (workload unit_with_exporter) = None"
    "fmlookup (plan_services (workload unit_with_exporter)) ''exporter'' = Some exporter"
    "calls unit_with_exporter = []"
    by (simp_all add: unit_with_exporter_def unit0_def)
  have name: "''exporter'' \<noteq> charm_name"
    by (simp add: charm_name_def)
  have first: "configure ?J unit_with_exporter = Inr ?st1"
    using w0(1) running_missing[OF w0(2)] consul_config_not_empty
      foreign_service_differs(1)[OF w0(4) name] w0(3)
    by (rule configure_all_changed)
  have same: "consul_config ?st1 = consul_config unit_with_exporter"
    by (rule consul_config_cong) simp_all
  have w1: "can_connect (workload ?st1)" "restart_failure (workload ?st1) = None"
    "plan_services (workload ?st1)
       = plan_services (workload unit_with_exporter) ++\<^sub>f layer_services pebble_layer"
    using w0 by (simp_all add: add_layer_def push_def)
  have run1: "running_consul_config ?J (workload ?st1) = Inr (consul_config ?st1)"
    using w0(1) same loads_document[of "consul_config unit_with_exporter" "Some 2"]
    by (simp add: running_consul_config_def pull_def add_layer_def push_def)
  have eq1: "py_eq (consul_config ?st1) (consul_config ?st1)"
    by (rule py_eq_refl)
  have plan1: "plan_services (workload ?st1) \<noteq> layer_services pebble_layer"
    unfolding w1(3) by (rule foreign_service_differs(2)[OF w0(4) name])
  have second: "configure ?J ?st1 =
           Inr (update_status ActiveStatus
                  (set_endpoints_on_related_apps ?J None
                     (?st1\<lparr>workload := add_layer (workload ?st1) charm_name pebble_layer,
                         calls := calls ?st1 @ [AddLayer charm_name, Restart charm_name]\<rparr>)))"
    using w1(1) run1 eq1 plan1 w1(2) by (rule configure_layer_changed)
  have one: "cycles ?J 1 unit_with_exporter = Inr ?st1"
    using first by (simp add: numeral_eq_Suc)
  have two: "cycles ?J 2 unit_with_exporter =
           Inr (update_status ActiveStatus
                  (set_endpoints_on_related_apps ?J None
                     (?st1\<lparr>workload := add_layer (workload ?st1) charm_name pebble_layer,
                         calls := calls ?st1 @ [AddLayer charm_name, Restart charm_name]\<rparr>)))"
    using first second by (simp add: numeral_2_eq_2)
  show ?thesis
    unfolding one two using w0(5) doc by simp
qed

text \<open>
  C2, amended. When a cycle has ended Active on a unit whose plan holds no service but
  consul's, and \<open>json.loads\<close> reads the text \<open>json.dumps\<close> wrote for the built document
  back as that document, then a second cycle on the state the first one left finds the
  persisted document equal to the built one and the plan equal to the layer, pushes no
  file, adds no layer, restarts nothing (its only call hands the endpoints to the
  relation library), and leaves the workload, the unit status and the application
  status as they were.
\<close>

theorem second_cycle_changes_nothing:
  assumes first: "configure J st = Inr st1"
      and ok: "unit_status st1 = ActiveStatus"
      and codec: "json_loads J (json_dumps J (Some 2) (consul_config st)) = Some d"
      and same_doc: "py_eq d (consul_config st)"
      and plan: "fmdom (plan_services (workload st)) |\<subseteq>| {|charm_name|}"
  shows "(\<exists>running. running_consul_config J (workload st1) = Inr running
            \<and> py_eq running (consul_config st1))
       \<and> plan_services (workload st1) = layer_services pebble_layer
       \<and> (\<exists>st2. configure J st1 = Inr st2
             \<and> calls st2 = calls st1 @ [SetEndpoints None]
             \<and> workload st2 = workload st1
             \<and> unit_status st2 = unit_status st1
             \<and> app_status st2 = app_status st1)"
proof -
  note fc = first_cycle[OF first ok]
  have same: "consul_config st1 = consul_config st"
    using fc(2) by (intro consul_config_cong) simp_all
  obtain running where run: "running_consul_config J (workload st1) = Inr running"
    and eq: "py_eq running (consul_config st1)"
    using fc(3)
  proof
    assume a: "(\<exists>running. running_consul_config J (workload st) = Inr running
                  \<and> py_eq running (consul_config st))
            \<and> files (workload st1) = files (workload st)"
    then obtain running where r: "running_consul_config J (workload st) = Inr running"
      "py_eq running (consul_config st)"
      by blast
    have "running_consul_config J (workload st1) = running_consul_config J (workload st)"
      using a fc(1) fc(5) by (intro running_depends_on_files) simp_all
    with r same that show ?thesis by simp
  next
    assume a: "files (workload st1)
      = fmupd CONSUL_CONFIG_PATH (json_dumps J (Some 2) (consul_config st)) (files (workload st))"
    have "running_consul_config J (workload st1) = Inr d"
      using a fc(5) codec by (simp add: running_consul_config_def pull_def)
    with same_doc same that show ?thesis by simp
  qed
  have dom_layer: "fmdom (layer_services pebble_layer) = {|charm_name|}"
    by (simp add: pebble_layer_def)
  have pl: "plan_services (workload st1) = layer_services pebble_layer"
    using fc(4)
  proof
    assume "plan_services (workload st) = layer_services pebble_layer
            \<and> plan_services (workload st1) = plan_services (workload st)"
    then show ?thesis by simp
  next
    assume a: "plan_services (workload st1) = plan_services (workload st) ++\<^sub>f layer_services pebble_layer"
    show ?thesis
      unfolding a using plan dom_layer by (intro merged_plan_is_layer) simp
  qed
  have second: "configure J st1 = Inr (update_status ActiveStatus (set_endpoints_on_related_apps J None st1))"
    using fc(5) run eq pl by (rule configure_unchanged)
  have app: "is_leader st1 \<longrightarrow> app_status st1 = ActiveStatus"
    using fc(6) fc(2) by simp
  have "\<exists>running. running_consul_config J (workload st1) = Inr running
            \<and> py_eq running (consul_config st1)"
    using run eq by blast
  then show ?thesis
    using pl second ok app
    by (auto simp: app_status_update_status)
qed

text \<open>
  The unit of the example, whose plan is empty: the first cycle writes the file, adds
  the layer and restarts; the second changes nothing.
\<close>

theorem second_cycle_changes_nothing_witness:
  "\<exists>st1. configure (codec_of (consul_config unit0)) unit0 = Inr st1
       \<and> unit_status st1 = ActiveStatus
       \<and> json_loads (codec_of (consul_config unit0))
            (json_dumps (codec_of (consul_config unit0)) (Some 2) (consul_config unit0))
           = Some (consul_config unit0)
       \<and> py_eq (consul_config unit0) (consul_config unit0)
       \<and> fmdom (plan_services (workload unit0)) |\<subseteq>| {|charm_name|}
       \<and> (\<exists>running. running_consul_config (codec_of (consul_config unit0)) (workload st1)
                        = Inr running
                    \<and> py_eq running (consul_config st1))
       \<and> plan_services (workload st1) = layer_services pebble_layer
       \<and> (\<exists>st2. configure (codec_of (consul_config unit0)) st1 = Inr st2
             \<and> calls st2 = calls st1 @ [SetEndpoints None]
             \<and> workload st2 = workload st1
             \<and> unit_status st2 = unit_status st1
             \<and> app_status st2 = app_status st1)"
proof -
  let ?J = "codec_of (consul_config unit0)"
  have w0: "can_connect (workload unit0)"
    "fmlookup (files (workload unit0)) CONSUL_CONFIG_PATH = None"
    "restart_failure (workload unit0) = None"
    "plan_services (workload unit0) = fmempty"
    by (simp_all add: unit0_def)
  have differs: "plan_services (workload unit0) \<noteq> layer_services pebble_layer"
    unfolding w0(4) by (simp add: pebble_layer_def)
  obtain st1 where first: "configure ?J unit0 = Inr st1" and ok: "unit_status st1 = ActiveStatus"
    using configure_all_changed[OF w0(1) running_missing[OF w0(2)] consul_config_not_empty
        differs w0(3), of ?J]
    by simp
  have codec: "json_loads ?J (json_dumps ?J (Some 2) (consul_config unit0)) = Some (consul_config unit0)"
    by (rule loads_document)
  have same_doc: "py_eq (consul_config unit0) (consul_config unit0)"
    by (rule py_eq_refl)
  have plan: "fmdom (plan_services (workload unit0)) |\<subseteq>| {|charm_name|}"
    by (simp add: w0(4))
  show ?thesis
    using first ok codec same_doc plan
      second_cycle_changes_nothing[OF first ok codec same_doc plan]
    by blast
qed

section \<open>The persisted document\<close>








section \<open>Join addresses\<close>

text \<open>The internal address of three units, as text.\<close>

lemma internal_join_addresses_examples:
  "get_internal_join_addresses unit0 = [''consul.test-model.svc:8301'']"
  "get_internal_join_addresses (unit0\<lparr>app_name := ''app'', model_name := ''model''\<rparr>)
     = [''app.model.svc:8301'']"
  "get_internal_join_addresses (with_expose (CStr ''nodeport'') 30501 unit0)
     = [''consul.test-model.svc:30501'']"
  by (simp_all add: get_internal_join_addresses_def charm_ports_def get_consul_ports_def
      with_expose_def unit0_def str_int_8301 str_int_30501)

lemma external_join_addresses_unit0:
  "get_external_join_addresses (with_expose (CStr ''nodeport'') 30501 unit0)
     = Some [''10.10.0.10:30501'']"
  by (simp add: get_external_join_addresses_def with_expose_def unit0_def
      get_hostips_for_consul_service_def client_list_def set_add_def charm_ports_def
      get_consul_ports_def str_int_30501)

lemma retry_join_general:
  "json_item (consul_config st) ''retry_join''
     = Some (JList (map JStr (get_internal_join_addresses st)))
   \<and> json_item (legacy_consul_config st) ''retry_join''
     = Some (JList (map JStr (get_internal_join_addresses st)))
   \<and> consul_config (st\<lparr>cluster_pods := pods\<rparr>) = consul_config st
   \<and> legacy_consul_config (st\<lparr>cluster_pods := pods\<rparr>) = legacy_consul_config st"
  by (simp add: retry_join_build consul_config_def legacy_consul_config_def
      get_internal_join_addresses_def get_join_addesses_def charm_ports_def)

text \<open>
  C5. The internal join addresses are a one-element list: the application name, a dot,
  the model name, \<open>.svc:\<close>, and a text which, read as a decimal numeral, is the serf
  LAN port, whatever the application, the model and the ports. The \<open>retry_join\<close> field
  of the document either charm builds is that list, and the document does not depend on
  the pods of the cluster, from which the external addresses are taken. For application
  \<open>app\<close> in model \<open>model\<close> with the default port the list is \<open>["app.model.svc:8301"]\<close>.
  With exposure enabled, node port 30501 and a pod on host 10.10.0.10, the internal
  list and the \<open>retry_join\<close> field of both documents are
  \<open>["consul.test-model.svc:30501"]\<close>, while the external list is
  \<open>["10.10.0.10:30501"]\<close>.
\<close>

theorem retry_join_is_internal_address:
  "(\<exists>port. get_internal_join_addresses st
              = [app_name st @ ''.'' @ model_name st @ ''.svc:'' @ port]
           \<and> py_int port = Some (serf_lan (charm_ports st)))
   \<and> json_item (consul_config st) ''retry_join''
       = Some (JList (map JStr (get_internal_join_addresses st)))
   \<and> json_item (legacy_consul_config st) ''retry_join''
       = Some (JList (map JStr (get_internal_join_addresses st)))
   \<and> consul_config (st\<lparr>cluster_pods := pods\<rparr>) = consul_config st
   \<and> legacy_consul_config (st\<lparr>cluster_pods := pods\<rparr>) = legacy_consul_config st
   \<and> get_internal_join_addresses (unit0\<lparr>app_name := ''app'', model_name := ''model''\<rparr>)
       = [''app.model.svc:8301'']
   \<and> get_internal_join_addresses (with_expose (CStr ''nodeport'') 30501 unit0)
       = [''consul.test-model.svc:30501'']
   \<and> json_item (consul_config (with_expose (CStr ''nodeport'') 30501 unit0)) ''retry_join''
       = Some (JList [JStr ''consul.test-model.svc:30501''])
   \<and> json_item (legacy_consul_config (with_expose (CStr ''nodeport'') 30501 unit0)) ''retry_join''
       = Some (JList [JStr ''consul.test-model.svc:30501''])
   \<and> get_external_join_addresses (with_expose (CStr ''nodeport'') 30501 unit0)
       = Some [''10.10.0.10:30501'']"
proof -
  have port: "\<exists>port. get_internal_join_addresses st
              = [app_name st @ ''.'' @ model_name st @ ''.svc:'' @ port]
           \<and> py_int port = Some (serf_lan (charm_ports st))"
    by (intro exI[of _ "str_int (serf_lan (charm_ports st))"])
       (simp add: get_internal_join_addresses_def py_int_str_int)
  let ?st = "with_expose (CStr ''nodeport'') 30501 unit0"
  have exposed: "json_item (consul_config ?st) ''retry_join''
                   = Some (JList [JStr ''consul.test-model.svc:30501''])"
    "json_item (legacy_consul_config ?st) ''retry_join''
                   = Some (JList [JStr ''consul.test-model.svc:30501''])"
    using retry_join_general[of ?st] internal_join_addresses_examples(3) by simp_all
  show ?thesis
    using port retry_join_general[of st pods] internal_join_addresses_examples(2,3) exposed
      external_join_addresses_unit0
    by blast
qed

text \<open>
  What \<open>_get_external_join_addresses\<close> returns: \<open>None\<close> when the option is false in
  Python's sense; otherwise a list without repetition, with one address for each host IP
  (present and not empty) of the pods of the model that carry the label of the
  application.
\<close>

lemma external_join_addresses_general:
  "(\<not> truthy (cfg_expose_gossip_and_rpc_ports (config st)) \<longrightarrow> get_external_join_addresses st = None)
   \<and> (truthy (cfg_expose_gossip_and_rpc_ports (config st)) \<longrightarrow>
        (\<exists>addrs. get_external_join_addresses st = Some addrs
           \<and> distinct addrs
           \<and> set addrs =
               (\<lambda>ip. ip @ '':'' @ str_int (serf_lan (charm_ports st))) `
                 {ip. ip \<noteq> [] \<and>
                      (\<exists>p \<in> set (cluster_pods st).
                         pod_namespace p = model_name st
                       \<and> map_of (pod_labels p) ''app.kubernetes.io/name'' = Some (app_name st)
                       \<and> (\<exists>s. status p = Some s \<and> hostIP s = Some ip))}))"
  by (simp add: get_external_join_addresses_def hostips_set hostips_distinct map_suffix_distinct)

text \<open>
  C6 does not hold of \<open>charm/src/charm.py\<close> when exposure is disabled the way the spec
  and the tests of the repository disable it, with the string \<open>false\<close>. The function
  only asks whether the option is true, and a string that is not empty is true: with
  one pod on host 10.10.0.10 and node port 30501 it returns \<open>["10.10.0.10:30501"]\<close>, not
  \<open>None\<close>. It returns \<open>None\<close> for the boolean \<open>False\<close>, and for \<open>nodeport\<close> the list the
  claim gives.
\<close>

theorem expose_false_string_gives_external_addresses:
  "truthy (CStr ''false'')
   \<and> serf_lan (charm_ports (with_expose (CStr ''false'') 30501 unit0)) = 30501
   \<and> get_external_join_addresses (with_expose (CStr ''false'') 30501 unit0)
       = Some [''10.10.0.10:30501'']
   \<and> get_external_join_addresses (with_expose (CBool False) 30501 unit0) = None
   \<and> get_external_join_addresses (with_expose (CStr ''nodeport'') 30501 unit0)
       = Some [''10.10.0.10:30501'']"
  by (simp add: get_external_join_addresses_def with_expose_def unit0_def
      get_hostips_for_consul_service_def client_list_def set_add_def charm_ports_def
      get_consul_ports_def str_int_30501)

section \<open>Leadership\<close>

text \<open>
  C7. On a unit that is not the leader, \<open>set_cluster_config\<close> returns the state it was
  given, publication through either charm leaves the relation databags as they were,
  and \<open>_reconcile_service\<close> (as well as \<open>_on_remove\<close>) leaves the Service objects of
  the cluster as they were.
\<close>

theorem non_leader_writes_nothing:
  assumes "\<not> is_leader st" and "\<not> h_is_leader h"
  shows "set_cluster_config J relation datacenter addrs st = Inr st
       \<and> (\<exists>st'. set_config_on_related_apps J event st = Inr st' \<and> relations st' = relations st)
       \<and> relations (set_endpoints_on_related_apps J event st) = relations st
       \<and> reconcile_service h = h
       \<and> on_remove h = h"
  using assms
  by (simp add: set_cluster_config_def set_config_on_related_apps_def
      set_endpoints_on_related_apps_def set_cluster_endpoints_def reconcile_service_def
      on_remove_def Let_def)

theorem non_leader_writes_nothing_witness:
  "\<not> is_leader (unit0\<lparr>is_leader := False\<rparr>)
   \<and> \<not> h_is_leader
        \<lparr>h_app_name = ''consul'', h_model_name = ''test-model'', h_is_leader = False,
         h_service_ports = [], h_service_type = NodePort, h_cluster_services = []\<rparr>
   \<and> set_cluster_config (codec_of JNull) None ''dc1'' [''consul.test-model.svc:8301'']
        (unit0\<lparr>is_leader := False\<rparr>) = Inr (unit0\<lparr>is_leader := False\<rparr>)
   \<and> relations (set_endpoints_on_related_apps (codec_of JNull) None (unit0\<lparr>is_leader := False\<rparr>))
       = [\<lparr>rel_id = 7, rel_app_data = fmempty\<rparr>]
   \<and> h_cluster_services (reconcile_service
        \<lparr>h_app_name = ''consul'', h_model_name = ''test-model'', h_is_leader = False,
         h_service_ports = [], h_service_type = NodePort, h_cluster_services = []\<rparr>) = []"
proof -
  let ?st = "unit0\<lparr>is_leader := False\<rparr>"
  let ?h = "\<lparr>h_app_name = ''consul'', h_model_name = ''test-model'', h_is_leader = False,
         h_service_ports = [], h_service_type = NodePort, h_cluster_services = []\<rparr>"
  have h1: "\<not> is_leader ?st" by simp
  have h2: "\<not> h_is_leader ?h" by simp
  have rels: "relations ?st = [\<lparr>rel_id = 7, rel_app_data = fmempty\<rparr>]"
    by (simp add: unit0_def)
  from non_leader_writes_nothing[OF h1 h2, of "codec_of JNull" None "''dc1''"
      "[''consul.test-model.svc:8301'']" None]
  have "set_cluster_config (codec_of JNull) None ''dc1'' [''consul.test-model.svc:8301''] ?st = Inr ?st"
    and "relations (set_endpoints_on_related_apps (codec_of JNull) None ?st) = relations ?st"
    and "reconcile_service ?h = ?h"
    by blast+
  with h1 h2 rels show ?thesis by simp
qed

section \<open>The requirer\<close>

text \<open>The one exception the databag model raises is \<open>ValidationError\<close>, which both callers catch.\<close>

lemma app_data_error: "ConsulConfigProviderAppData J kw = Inl e \<Longrightarrow> e = ValidationError"
  by (auto simp: ConsulConfigProviderAppData_def split: option.splits json.splits sum.splits if_splits)

lemma validate_total: "\<exists>b. validate_databag_from_relation J r = Inr b"
  by (auto simp: validate_databag_from_relation_def dest: app_data_error split: option.splits sum.splits)

lemma on_relation_changed_emits:
  "\<exists>new. on_relation_changed J r = Inr (r\<lparr>emitted := emitted r @ new\<rparr>)
        \<and> ClusterServerGoneAwayEvent \<notin> set new"
proof -
  obtain b where b: "validate_databag_from_relation J r = Inr b"
    using validate_total by blast
  show ?thesis
  proof (cases b)
    case True
    with b have "on_relation_changed J r = Inr (r\<lparr>emitted := emitted r @ [ClusterConfigChangedEvent]\<rparr>)"
      by (simp add: on_relation_changed_def)
    then show ?thesis by (intro exI[of _ "[ClusterConfigChangedEvent]"]) simp
  next
    case False
    with b have "on_relation_changed J r = Inr r"
      by (simp add: on_relation_changed_def)
    then show ?thesis by (intro exI[of _ "[]"]) simp
  qed
qed

lemma requirer_dispatch_handlers:
  "requirer_dispatch J (k, rel) r = 
     (case on_relation_changed J (r\<lparr>consul_cluster_rel := rel\<rparr>) of Inl e \<Rightarrow> Inl e | Inr r' \<Rightarrow> Inr r')"
  by (cases k) (simp_all add: requirer_dispatch_def requirer_observers_def split: sum.splits)

lemma requirer_dispatch_emits:
  "\<exists>r' new. requirer_dispatch J ev r = Inr r' \<and> emitted r' = emitted r @ new
        \<and> ClusterServerGoneAwayEvent \<notin> set new"
proof -
  obtain k rel where ev: "ev = (k, rel)" by (cases ev)
  obtain new where "on_relation_changed J (r\<lparr>consul_cluster_rel := rel\<rparr>)
      = Inr (r\<lparr>consul_cluster_rel := rel, emitted := emitted r @ new\<rparr>)"
    and "ClusterServerGoneAwayEvent \<notin> set new"
    using on_relation_changed_emits[of J "r\<lparr>consul_cluster_rel := rel\<rparr>"] by auto
  then show ?thesis
    unfolding ev requirer_dispatch_handlers by auto
qed

lemma requirer_run_emits:
  "\<exists>r' new. requirer_run J evs r = Inr r' \<and> emitted r' = emitted r @ new
        \<and> ClusterServerGoneAwayEvent \<notin> set new"
proof (induction evs arbitrary: r)
  case Nil
  then show ?case by simp
next
  case (Cons ev evs)
  obtain r1 new1 where 1: "requirer_dispatch J ev r = Inr r1" "emitted r1 = emitted r @ new1"
    "ClusterServerGoneAwayEvent \<notin> set new1"
    using requirer_dispatch_emits by blast
  obtain r2 new2 where 2: "requirer_run J evs r1 = Inr r2" "emitted r2 = emitted r1 @ new2"
    "ClusterServerGoneAwayEvent \<notin> set new2"
    using Cons.IH by blast
  show ?case
    using 1 2 by (intro exI[of _ r2] exI[of _ "new1 @ new2"]) simp
qed

text \<open>
  C9 does not hold of a databag without \<open>datacenter\<close>. \<open>Field("Datacenter cluster
  name")\<close> makes that text the default of the field, so the empty databag passes
  validation: \<open>config_changed\<close> is emitted and the accessors return the two default
  texts, not \<open>None\<close>.
\<close>

theorem empty_databag_is_accepted:
  "validate_databag_from_relation J \<lparr>consul_cluster_rel = Some fmempty, emitted = []\<rparr> = Inr True
   \<and> on_relation_changed J \<lparr>consul_cluster_rel = Some fmempty, emitted = []\<rparr>
       = Inr \<lparr>consul_cluster_rel = Some fmempty, emitted = [ClusterConfigChangedEvent]\<rparr>
   \<and> requirer_datacenter J \<lparr>consul_cluster_rel = Some fmempty, emitted = []\<rparr>
       = Inr (Some (JStr ''Datacenter cluster name''))
   \<and> requirer_server_join_addresses J \<lparr>consul_cluster_rel = Some fmempty, emitted = []\<rparr>
       = Inr (Some (JStr ''Consul server join addresses''))"
  by (simp add: validate_databag_from_relation_def on_relation_changed_def
      requirer_datacenter_def requirer_server_join_addresses_def
      get_app_databag_from_relation_def ConsulConfigProviderAppData_def databag_kwargs_def
      model_dump_def)

text \<open>
  A databag whose \<open>server_join_addresses\<close> is not JSON, or is JSON and not a list of
  strings, fails validation; and a databag that fails validation is rejected as the
  claim says: no event, no exception, and both accessors return \<open>None\<close>.
\<close>

lemma malformed_addresses_fail_validation:
  assumes "fmlookup databag ''server_join_addresses'' = Some t"
      and "json_loads J t = None \<or> (\<exists>d. json_loads J t = Some d \<and> \<not> is_list_of_str d)"
  shows "ConsulConfigProviderAppData J (databag_kwargs databag) = Inl ValidationError"
  using assms
  by (auto simp: ConsulConfigProviderAppData_def databag_kwargs_def convert_str_to_list_of_str_def
      split: option.splits)


lemma invalid_databag_is_rejected:
  assumes "consul_cluster_rel r = Some databag"
      and "ConsulConfigProviderAppData J (databag_kwargs databag) = Inl e"
  shows "on_relation_changed J r = Inr r
       \<and> requirer_datacenter J r = Inr None
       \<and> requirer_server_join_addresses J r = Inr None"
  using assms app_data_error[OF assms(2)]
  by (simp add: validate_databag_from_relation_def on_relation_changed_def
      requirer_datacenter_def requirer_server_join_addresses_def
      get_app_databag_from_relation_def)

text \<open>
  C10. \<open>_on_relation_broken\<close> is registered for no event: \<open>relation_broken\<close> runs
  \<open>_on_relation_changed\<close>. Whatever the sequence of relation events and whatever the
  relation data each of them finds, the run raises nothing and none of the events it
  emits is \<open>ClusterServerGoneAwayEvent\<close>.
\<close>

theorem goneaway_never_emitted:
  "(relation_broken, h_on_relation_broken) \<notin> set requirer_observers
   \<and> requirer_dispatch J (relation_broken, rel) r
       = on_relation_changed J (r\<lparr>consul_cluster_rel := rel\<rparr>)
   \<and> (\<exists>r' new. requirer_run J evs r = Inr r'
         \<and> emitted r' = emitted r @ new
         \<and> ClusterServerGoneAwayEvent \<notin> set new)"
proof -
  have "requirer_dispatch J (relation_broken, rel) r
       = on_relation_changed J (r\<lparr>consul_cluster_rel := rel\<rparr>)"
    by (simp add: requirer_dispatch_handlers split: sum.splits)
  then show ?thesis
    using requirer_run_emits[of J evs r] by (simp add: requirer_observers_def)
qed

section \<open>Configuration values the charm does not check\<close>

lemma str_int_29999: "str_int 29999 = ''29999''"
  by (simp add: str_int_def str_nat.simps digit_def)

lemma str_int_8500: "str_int 8500 = ''8500''"
  by (simp add: str_int_def str_nat.simps digit_def)

lemma configure_unit0_active:
  "map_sum id unit_status (configure J (with_expose mode port unit0)) = Inr ActiveStatus
   \<and> map_sum id calls (configure J (with_expose mode port unit0))
       = Inr [Push CONSUL_CONFIG_PATH (json_dumps J (Some 2) (consul_config (with_expose mode port unit0))),
              AddLayer charm_name, Restart charm_name, SetEndpoints None]"
proof -
  let ?st = "with_expose mode port unit0"
  have w0: "can_connect (workload ?st)"
    "fmlookup (files (workload ?st)) CONSUL_CONFIG_PATH = None"
    "restart_failure (workload ?st) = None"
    "plan_services (workload ?st) = fmempty"
    "calls ?st = []"
    by (simp_all add: unit0_def with_expose_def)
  have differs: "plan_services (workload ?st) \<noteq> layer_services pebble_layer"
    unfolding w0(4) by (simp add: pebble_layer_def)
  show ?thesis
    using configure_all_changed[OF w0(1) running_missing[OF w0(2)] consul_config_not_empty
        differs w0(3), of J] w0(5)
    by simp
qed

text \<open>
  C3 does not hold of \<open>charm/src/charm.py\<close>, whose \<open>_on_config_changed\<close> carries the
  validation as a TODO. With exposure \<open>nodeport\<close> and \<open>serflan-node-port\<close> 29999 on a
  reachable workload, the port 29999 becomes the serf LAN port, the document with the
  join address \<open>consul.test-model.svc:29999\<close> is pushed, consul is restarted, and the
  unit is Active, not Blocked.
\<close>

theorem node_port_out_of_range_is_applied:
  "serf_lan (charm_ports (with_expose (CStr ''nodeport'') 29999 unit0)) = 29999
   \<and> json_item (consul_config (with_expose (CStr ''nodeport'') 29999 unit0)) ''retry_join''
       = Some (JList [JStr ''consul.test-model.svc:29999''])
   \<and> map_sum id unit_status (configure J (with_expose (CStr ''nodeport'') 29999 unit0))
       = Inr ActiveStatus
   \<and> map_sum id calls (configure J (with_expose (CStr ''nodeport'') 29999 unit0))
       = Inr [Push CONSUL_CONFIG_PATH
                (json_dumps J (Some 2) (consul_config (with_expose (CStr ''nodeport'') 29999 unit0))),
              AddLayer charm_name, Restart charm_name, SetEndpoints None]"
proof -
  have p: "serf_lan (charm_ports (with_expose (CStr ''nodeport'') 29999 unit0)) = 29999"
    by (simp add: charm_ports_def get_consul_ports_def with_expose_def)
  have j: "json_item (consul_config (with_expose (CStr ''nodeport'') 29999 unit0)) ''retry_join''
       = Some (JList [JStr ''consul.test-model.svc:29999''])"
    unfolding consul_config_def retry_join_build get_internal_join_addresses_def p
    by (simp add: with_expose_def unit0_def str_int_29999)
  show ?thesis
    using p j configure_unit0_active[of J "CStr ''nodeport''" 29999] by simp
qed

text \<open>
  C4 does not hold of \<open>charm/src/charm.py\<close>, which only asks whether the option is
  true. The string \<open>invalid\<close> is true: the node port becomes the serf LAN port,
  \<open>open_ports\<close> returns a \<open>NodePort\<close> service patch, the host addresses are published
  as external join addresses, and the unit is Active, not Blocked.
\<close>

theorem invalid_expose_value_enables_node_port:
  "serf_lan (get_consul_ports (config (with_expose (CStr ''invalid'') 30501 unit0))) = 30501
   \<and> open_ports (with_expose (CStr ''invalid'') 30501 unit0)
       = ServicePatch
           \<lparr>patch_ports =
              [\<lparr>sp_port = 30501, sp_name = ''juju-30501-tcp'', sp_protocol = ''TCP'',
                sp_nodePort = Some 30501, sp_targetPort = None\<rparr>,
               \<lparr>sp_port = 30501, sp_name = ''juju-30501-udp'', sp_protocol = ''UDP'',
                sp_nodePort = Some 30501, sp_targetPort = None\<rparr>,
               \<lparr>sp_port = 8500, sp_name = ''juju-8500-tcp'', sp_protocol = ''TCP'',
                sp_nodePort = None, sp_targetPort = Some 8500\<rparr>],
            patch_service_name = ''consul'',
            patch_service_type = ''NodePort''\<rparr>
   \<and> get_external_join_addresses (with_expose (CStr ''invalid'') 30501 unit0)
       = Some [''10.10.0.10:30501'']
   \<and> map_sum id unit_status (configure J (with_expose (CStr ''invalid'') 30501 unit0))
       = Inr ActiveStatus"
proof -
  have p: "serf_lan (get_consul_ports (config (with_expose (CStr ''invalid'') 30501 unit0))) = 30501"
    by (simp add: get_consul_ports_def with_expose_def)
  have h: "http (get_consul_ports (config (with_expose (CStr ''invalid'') 30501 unit0))) = 8500"
    by (simp add: get_consul_ports_def with_expose_def)
  have o: "open_ports (with_expose (CStr ''invalid'') 30501 unit0)
       = ServicePatch
           \<lparr>patch_ports =
              [\<lparr>sp_port = 30501, sp_name = ''juju-30501-tcp'', sp_protocol = ''TCP'',
                sp_nodePort = Some 30501, sp_targetPort = None\<rparr>,
               \<lparr>sp_port = 30501, sp_name = ''juju-30501-udp'', sp_protocol = ''UDP'',
                sp_nodePort = Some 30501, sp_targetPort = None\<rparr>,
               \<lparr>sp_port = 8500, sp_name = ''juju-8500-tcp'', sp_protocol = ''TCP'',
                sp_nodePort = None, sp_targetPort = Some 8500\<rparr>],
            patch_service_name = ''consul'',
            patch_service_type = ''NodePort''\<rparr>"
    unfolding open_ports_def charm_ports_def p h Let_def str_int_30501 str_int_8500
    by (simp add: with_expose_def unit0_def)
  have e: "get_external_join_addresses (with_expose (CStr ''invalid'') 30501 unit0)
       = Some [''10.10.0.10:30501'']"
    by (simp add: get_external_join_addresses_def with_expose_def unit0_def
        get_hostips_for_consul_service_def client_list_def set_add_def charm_ports_def
        get_consul_ports_def str_int_30501)
  show ?thesis
    using p o e configure_unit0_active[of J "CStr ''invalid''" 30501] by simp
qed

end
